theory Spec2Isabelle
  imports Complex_Main "HOL-Library.Sublist" "HOL-Library.AList"
begin

section \<open>JavaScript values, thrown values and strings\<close>

text \<open>
  The repository validates contributor records written in YAML.  Its sources hold the
  validation script in three versions (\<^verbatim>\<open>part_000\<close>, then \<^verbatim>\<open>part_002\<close> with the avatar
  check and the cancellation of a pass, then \<^verbatim>\<open>part_001\<close>), the schema file in two
  (\<^verbatim>\<open>src/code/schema.ts\<close> and \<^verbatim>\<open>part_004\<close>) and the project registry (\<^verbatim>\<open>part_003\<close>).
  A script reads the record files, hands each parsed value to the zod schema and formats
  the issues zod reports.  The script of \<^verbatim>\<open>part_002\<close> is modelled in full, the other
  two as far as they differ from it in what is proved below.

  The value the YAML parser returns is a plain JavaScript value; an object lists its own
  properties in the order JavaScript enumerates them.
\<close>

datatype jsval =
    JUndefined
  | JNull
  | JBoolean bool
  | JNumber real
  | JNaN
  | JInfinity bool
  | JString string
  | JArray "jsval list"
  | JObject "(string \<times> jsval) list"

text \<open>
  A thrown value.  The two error classes of the script extend \<open>Error\<close> without setting a
  name, so their \<open>name\<close> is the inherited \<open>Error\<close>.  \<open>JsError name message\<close> is any other
  instance of \<open>Error\<close>; \<open>NonError s\<close> is a thrown value that is not an \<open>Error\<close>, with \<open>s\<close> the
  result of \<open>String(value)\<close>.
\<close>

datatype thrown =
    InvalidRoleError string
  | InvalidProjectError string
  | JsError string string
  | NonError string

fun instanceof_Error :: "thrown \<Rightarrow> bool" where
  "instanceof_Error (NonError s) = False"
| "instanceof_Error e = True"

fun error_name :: "thrown \<Rightarrow> string" where
  "error_name (JsError n m) = n"
| "error_name (NonError s) = ''undefined''"
| "error_name e = ''Error''"

fun error_message :: "thrown \<Rightarrow> string" where
  "error_message (InvalidRoleError m) = m"
| "error_message (InvalidProjectError m) = m"
| "error_message (JsError n m) = m"
| "error_message (NonError s) = ''undefined''"

fun String :: "thrown \<Rightarrow> string" where
  "String (NonError s) = s"
| "String e = error_name e @ '': '' @ error_message e"

text \<open>The expression \<open>error instanceof Error ? error.message : String(error)\<close>.\<close>

definition error_text :: "thrown \<Rightarrow> string" where
  "error_text e = (if instanceof_Error e then error_message e else String e)"

text \<open>The test \<open>error instanceof Error && error.name === "AbortError"\<close>.\<close>

definition is_AbortError :: "thrown \<Rightarrow> bool" where
  "is_AbortError e = (instanceof_Error e \<and> error_name e = ''AbortError'')"

text \<open>
  What \<open>signal.throwIfAborted()\<close> throws when the controller was aborted without a reason
  (as \<open>runValidation\<close> does): a \<open>DOMException\<close> named \<open>AbortError\<close>.
\<close>

definition abort_reason :: thrown where
  "abort_reason = JsError ''AbortError'' ''This operation was aborted''"

subsection \<open>String operations of the script\<close>

definition digit_char :: "nat \<Rightarrow> char" where
  "digit_char d = ''0123456789'' ! d"

function show_nat :: "nat \<Rightarrow> string" where
  "show_nat n = (if n < 10 then [digit_char n] else show_nat (n div 10) @ [digit_char (n mod 10)])"
  by pat_completeness auto
termination
  by (relation "measure id") auto

declare show_nat.simps [simp del]

text \<open>\<open>s.includes(sub)\<close>: \<open>sub\<close> occurs in \<open>s\<close> as a contiguous substring.\<close>

fun str_includes :: "string \<Rightarrow> string \<Rightarrow> bool" where
  "str_includes [] sub = (sub = [])"
| "str_includes (c # cs) sub = (prefix sub (c # cs) \<or> str_includes cs sub)"

text \<open>\<open>s.endsWith(suf)\<close>.\<close>

definition endsWith :: "string \<Rightarrow> string \<Rightarrow> bool" where
  "endsWith s suf = (length suf \<le> length s \<and> drop (length s - length suf) s = suf)"

text \<open>\<open>xs.join(sep)\<close> on an array of strings.\<close>

fun join :: "string list \<Rightarrow> string \<Rightarrow> string" where
  "join [] sep = []"
| "join [x] sep = x"
| "join (x # y # ys) sep = x @ sep @ join (y # ys) sep"

text \<open>\<open>s.split(".")\<close>: the segments between the separators; never empty.\<close>

fun str_split :: "string \<Rightarrow> char \<Rightarrow> string list" where
  "str_split [] c = [[]]"
| "str_split (x # xs) c =
     (if x = c then [] # str_split xs c
      else (case str_split xs c of [] \<Rightarrow> [[x]] | y # ys \<Rightarrow> (x # y) # ys))"

section \<open>Validation issues\<close>

text \<open>
  An issue as zod reports it: a path of object keys and array indices, a message and the
  data of its code.  \<open>invalid_union\<close> carries one list of issues per \<open>ZodError\<close> of
  \<open>unionErrors\<close>.  \<open>other_code c\<close> stands for every code the script does not look at
  (\<open>too_small\<close>, \<open>invalid_string\<close>, ...).
\<close>

datatype pkey = Key string | Idx nat

datatype ZodIssue = Issue (path: "pkey list") (message: string) (detail: ZodIssueCode)
and ZodIssueCode =
    invalid_type string string
  | unrecognized_keys "string list"
  | invalid_union "ZodIssue list list"
  | invalid_enum_value string "string list"
  | custom
  | other_code string

fun code :: "ZodIssue \<Rightarrow> string" where
  "code (Issue p m (invalid_type e r)) = ''invalid_type''"
| "code (Issue p m (unrecognized_keys ks)) = ''unrecognized_keys''"
| "code (Issue p m (invalid_union us)) = ''invalid_union''"
| "code (Issue p m (invalid_enum_value r opts)) = ''invalid_enum_value''"
| "code (Issue p m custom) = ''custom''"
| "code (Issue p m (other_code c)) = c"

fun pkey_str :: "pkey \<Rightarrow> string" where
  "pkey_str (Key k) = k"
| "pkey_str (Idx i) = show_nat i"

text \<open>\<open>error.path.join(".")\<close>.\<close>

definition path_join_dot :: "pkey list \<Rightarrow> string" where
  "path_join_dot p = join (map pkey_str p) ''.''"

section \<open>The environment of a pass\<close>

datatype ParseStatus = valid | dirty | aborted

text \<open>
  What parsing a value against the contributor schema yields before the avatar refinement
  runs: zod's parse status, the output value and the issues in the order zod collected them.
\<close>

record ParseReturn =
  status :: ParseStatus
  parsed :: jsval
  issues :: "ZodIssue list"

text \<open>What \<open>safeParse\<close> and \<open>safeParseAsync\<close> return: \<open>success\<close>, or the issues of the error.\<close>

datatype SafeParseReturn = Success | Failure "ZodIssue list"

text \<open>
  Everything a pass reads from outside the script: the working directory, the file system,
  the YAML parser, Node's \<open>path\<close> functions and the contributor schema.  \<open>access\<close> tells
  whether the promise of \<open>fs.access\<close> resolves; \<open>path_resolve_TypeError v\<close> is the message of
  the \<open>TypeError\<close> that \<open>path.resolve\<close> throws for an argument \<open>v\<close> that is not a string.
  The script of \<^verbatim>\<open>part_002\<close> imports its schema from \<^verbatim>\<open>../team/_schema\<close>, so the
  schema is a parameter here: \<open>TeamContributor_parseAsync\<close> is the outcome of parsing a
  value against it under \<open>safeParseAsync\<close>, \<open>TeamContributor_safeParse\<close> is the outcome
  of the synchronous \<open>safeParse\<close> that the script of \<^verbatim>\<open>part_000\<close> calls, and
  \<open>required_fields\<close> are the keys of its shape whose field is not optional.
\<close>

record world =
  cwd :: string
  readdirSync :: "string \<Rightarrow> thrown + string list"
  readFileSync :: "string \<Rightarrow> thrown + string"
  parse :: "string \<Rightarrow> thrown + jsval"
  access :: "string \<Rightarrow> bool"
  path_resolve :: "string \<Rightarrow> string \<Rightarrow> string"
  path_resolve_TypeError :: "jsval \<Rightarrow> string"
  path_dirname :: "string \<Rightarrow> string"
  path_relative :: "string \<Rightarrow> string \<Rightarrow> string"
  path_join :: "string \<Rightarrow> string \<Rightarrow> string"
  TeamContributor_parseAsync :: "jsval \<Rightarrow> thrown + ParseReturn"
  TeamContributor_safeParse :: "jsval \<Rightarrow> thrown + SafeParseReturn"
  required_fields :: "string list"

definition TEAM_DIR :: "world \<Rightarrow> string" where
  "TEAM_DIR w = path_resolve w (cwd w) ''team''"

section \<open>The error classifier\<close>

record ValidationResult =
  rfile :: string
  isValid :: bool
  errors :: "string list"
  warnings :: "string list"

definition new_InvalidRoleError :: "world \<Rightarrow> string \<Rightarrow> string \<Rightarrow> thrown" where
  \<open>new_InvalidRoleError w projectName filePath =
     InvalidRoleError (''Invalid role in project "'' @ projectName @ ''" for file ./''
       @ path_relative w (cwd w) filePath @ ''.'')\<close>

definition new_InvalidProjectError :: "world \<Rightarrow> string \<Rightarrow> string \<Rightarrow> thrown" where
  \<open>new_InvalidProjectError w projectName filePath =
     InvalidProjectError (''Invalid project "'' @ projectName @ ''" for file ./''
       @ path_relative w (cwd w) filePath @ ''.'')\<close>

text \<open>\<open>error.keys[0]\<close> inside a template literal: an empty array gives \<open>undefined\<close>.\<close>

definition keys0 :: "string list \<Rightarrow> string" where
  "keys0 ks = (case ks of [] \<Rightarrow> ''undefined'' | k # _ \<Rightarrow> k)"

text \<open>\<open>path.split(".")[1]\<close> inside a template literal.\<close>

definition split_dot_1 :: "string \<Rightarrow> string" where
  "split_dot_1 p = (case str_split p (CHR ''.'') of _ # y # _ \<Rightarrow> y | _ \<Rightarrow> ''undefined'')"

text \<open>
  The first test of \<open>formatValidationError\<close> (\<^verbatim>\<open>part_002\<close>, lines 49 to 54): \<open>Some e\<close> when it
  throws \<open>e\<close>.  A path whose only element is an array index has no \<open>includes\<close> method.
\<close>

fun unknown_project_check :: "world \<Rightarrow> ZodIssue \<Rightarrow> string \<Rightarrow> thrown option" where
  "unknown_project_check w (Issue [Key k] m (unrecognized_keys ks)) filePath =
     (if str_includes k ''roles'' then Some (new_InvalidProjectError w (keys0 ks) filePath)
      else None)"
| "unknown_project_check w (Issue [Idx i] m (unrecognized_keys ks)) filePath =
     Some (JsError ''TypeError'' ''error.path[0].includes is not a function'')"
| "unknown_project_check w e filePath = None"

text \<open>The second test (lines 55 to 62).\<close>

fun invalid_role_check :: "world \<Rightarrow> ZodIssue \<Rightarrow> string \<Rightarrow> thrown option" where
  "invalid_role_check w (Issue p m (invalid_union us)) filePath =
     (if str_includes (path_join_dot p) ''roles.''
      then Some (new_InvalidRoleError w (split_dot_1 (path_join_dot p)) filePath)
      else None)"
| "invalid_role_check w e filePath = None"

definition formatValidationError :: "world \<Rightarrow> ZodIssue \<Rightarrow> string \<Rightarrow> thrown + string" where
  "formatValidationError w error filePath =
     (case unknown_project_check w error filePath of
        Some e \<Rightarrow> Inl e
      | None \<Rightarrow>
         (case invalid_role_check w error filePath of
            Some e \<Rightarrow> Inl e
          | None \<Rightarrow>
             if path error \<noteq> [] then Inr (path_join_dot (path error) @ '': '' @ message error)
             else Inr (message error)))"

text \<open>
  \<open>errors.map(f)\<close> with a callback that may throw: the first throw ends the mapping and the
  strings built so far are lost.
\<close>

fun map_throwing :: "('a \<Rightarrow> thrown + 'b) \<Rightarrow> 'a list \<Rightarrow> thrown + 'b list" where
  "map_throwing f [] = Inr []"
| "map_throwing f (x # xs) =
     (case f x of
        Inl e \<Rightarrow> Inl e
      | Inr y \<Rightarrow> (case map_throwing f xs of Inl e \<Rightarrow> Inl e | Inr ys \<Rightarrow> Inr (y # ys)))"

section \<open>Validating one file\<close>

text \<open>\<open>contributor.avatar\<close>: reading a property of \<open>undefined\<close> or \<open>null\<close> throws.\<close>

fun get_avatar :: "jsval \<Rightarrow> thrown + jsval" where
  "get_avatar JUndefined =
     Inl (JsError ''TypeError'' ''Cannot read properties of undefined (reading 'avatar')'')"
| "get_avatar JNull =
     Inl (JsError ''TypeError'' ''Cannot read properties of null (reading 'avatar')'')"
| "get_avatar (JObject fs) = Inr (case map_of fs ''avatar'' of None \<Rightarrow> JUndefined | Some v \<Rightarrow> v)"
| "get_avatar v = Inr JUndefined"

text \<open>
  The callback given to \<open>superRefine\<close> (lines 89 to 107): the issues it adds.  A failing
  \<open>access\<close> is caught inside the callback.
\<close>

definition avatar_refinement :: "world \<Rightarrow> string \<Rightarrow> jsval \<Rightarrow> thrown + ZodIssue list" where
  "avatar_refinement w filePath contributor =
     (case get_avatar contributor of
        Inl e \<Rightarrow> Inl e
      | Inr avatar \<Rightarrow>
         (case avatar of
            JString a \<Rightarrow>
              (let avatarPath = path_resolve w (path_dirname w filePath) a
               in if access w avatarPath then Inr []
                  else Inr [Issue [Key ''avatar'']
                              (''No avatar file found at ./''
                                 @ path_relative w (cwd w) avatarPath)
                              custom])
          | v \<Rightarrow> Inl (JsError ''TypeError'' (path_resolve_TypeError w v))))"

text \<open>
  zod's \<open>handleResult\<close>: success when the status is valid; a failure must come with issues.
\<close>

definition handleResult :: "ParseStatus \<Rightarrow> ZodIssue list \<Rightarrow> thrown + SafeParseReturn" where
  "handleResult st iss =
     (if st = valid then Inr Success
      else if iss = [] then Inl (JsError ''Error'' ''Validation failed but no issues detected.'')
      else Inr (Failure iss))"

text \<open>
  \<open>TeamContributor.superRefine(callback).safeParseAsync(data)\<close>.  zod runs a refinement only
  when the inner parse did not abort; an issue added by \<open>ctx.addIssue\<close> makes a valid status
  dirty.
\<close>

definition safeParseAsync :: "world \<Rightarrow> string \<Rightarrow> jsval \<Rightarrow> thrown + SafeParseReturn" where
  "safeParseAsync w filePath data =
     (case TeamContributor_parseAsync w data of
        Inl e \<Rightarrow> Inl e
      | Inr inner \<Rightarrow>
         if status inner = aborted then handleResult aborted (issues inner)
         else
           (case avatar_refinement w filePath (parsed inner) of
              Inl e \<Rightarrow> Inl e
            | Inr added \<Rightarrow>
               handleResult
                 (if added \<noteq> [] \<and> status inner = valid then dirty else status inner)
                 (issues inner @ added)))"

text \<open>
  The body of the \<open>try\<close> block of \<open>validateTeamFile\<close> (lines 83 to 115), given the fresh
  result; \<open>signal\<close> is \<open>None\<close> when no signal is passed and \<open>Some b\<close> for a signal whose
  \<open>aborted\<close> flag is \<open>b\<close> when the checkpoint runs.
\<close>

definition validateTeamFile_try ::
  "world \<Rightarrow> string \<Rightarrow> bool option \<Rightarrow> ValidationResult \<Rightarrow> thrown + ValidationResult" where
  "validateTeamFile_try w filePath signal result =
     (if signal = Some True then Inl abort_reason
      else
        (case readFileSync w filePath of
           Inl e \<Rightarrow> Inl e
         | Inr content \<Rightarrow>
            (case parse w content of
               Inl e \<Rightarrow> Inl e
             | Inr data \<Rightarrow>
                (case safeParseAsync w filePath data of
                   Inl e \<Rightarrow> Inl e
                 | Inr Success \<Rightarrow> Inr (result\<lparr>isValid := True\<rparr>)
                 | Inr (Failure es) \<Rightarrow>
                    (case map_throwing (\<lambda>error. formatValidationError w error filePath) es of
                       Inl e \<Rightarrow> Inl e
                     | Inr strs \<Rightarrow> Inr (result\<lparr>errors := strs\<rparr>))))))"

text \<open>
  \<open>validateTeamFile\<close> (\<^verbatim>\<open>part_002\<close>, lines 71 to 128).  \<open>Inl e\<close>: the promise rejects with
  \<open>e\<close>.  Every throw of the \<open>try\<close> block happens before \<open>result\<close> is assigned to, so the
  handler pushes onto the fresh result.
\<close>

definition validateTeamFile :: "world \<Rightarrow> string \<Rightarrow> bool option \<Rightarrow> thrown + ValidationResult" where
  "validateTeamFile w filePath signal =
     (let result = \<lparr>rfile = filePath, isValid = False, errors = [], warnings = []\<rparr>
      in case validateTeamFile_try w filePath signal result of
           Inr r \<Rightarrow> Inr r
         | Inl e \<Rightarrow>
            if is_AbortError e then Inl e
            else Inr (result\<lparr>errors := errors result @ [''Failed to parse file: '' @ error_text e]\<rparr>))"

section \<open>One pass over the record directory\<close>

text \<open>The record files of the directory, or what \<open>readdirSync\<close> throws (lines 134 to 136).\<close>

definition team_files :: "world \<Rightarrow> thrown + string list" where
  "team_files w =
     (case readdirSync w (TEAM_DIR w) of
        Inl e \<Rightarrow> Inl e
      | Inr names \<Rightarrow>
         Inr (map (\<lambda>file. path_join w (TEAM_DIR w) file)
                (filter (\<lambda>file. endsWith file ''.yaml'' \<or> endsWith file ''.yml'') names)))"

datatype console_call = console_clear | console_log string | console_error string

text \<open>
  \<open>validateAllTeamFiles\<close> (lines 130 to 150): one promise per record file, each given as the
  value it settles to, and what was written to the console.  \<open>validateTeamFile\<close> is an
  \<open>async\<close> function, so calling it never throws; only the directory listing can reach the
  handler.  Every call runs up to its first \<open>await\<close> inside the loop, so all checkpoints
  of a pass see the same state of the signal.
\<close>

definition validateAllTeamFiles ::
  "world \<Rightarrow> bool option \<Rightarrow> (thrown + ValidationResult) list \<times> console_call list" where
  "validateAllTeamFiles w signal =
     (case team_files w of
        Inr files \<Rightarrow> (map (\<lambda>file. validateTeamFile w file signal) files, [])
      | Inl e \<Rightarrow> ([], [console_error (''Error reading team directory: '' @ error_text e)]))"

text \<open>
  \<open>Promise.all\<close> on settled promises: the results in the order of the promises, or a
  rejection.  The rejections of \<open>validateTeamFile\<close> are taken in the order of the files.
\<close>

fun Promise_all :: "(thrown + 'a) list \<Rightarrow> thrown + 'a list" where
  "Promise_all [] = Inr []"
| "Promise_all (Inl e # ps) = Inl e"
| "Promise_all (Inr r # ps) = (case Promise_all ps of Inl e \<Rightarrow> Inl e | Inr rs \<Rightarrow> Inr (r # rs))"

subsection \<open>The report\<close>

text \<open>The characters of the report outside ASCII, as their UTF-8 bytes.\<close>

definition CROSS_MARK :: string where
  "CROSS_MARK = [CHR 0xE2, CHR 0x9D, CHR 0x8C]"

definition PARTY_POPPER :: string where
  "PARTY_POPPER =
     [CHR 0xF0, CHR 0x9F, CHR 0x8E, CHR 0x89]"

definition LIGHT_BULB :: string where
  "LIGHT_BULB =
     [CHR 0xF0, CHR 0x9F, CHR 0x92, CHR 0xA1]"

definition BULLET :: string where
  "BULLET = [CHR 0xE2, CHR 0x80, CHR 0xA2]"

definition NEWLINE :: string where
  "NEWLINE = [CHR 0x0A]"

definition PROJECTS_FILE :: "world \<Rightarrow> string" where
  "PROJECTS_FILE w = path_resolve w (cwd w) ''team/_schema/projects.ts''"

definition print_file_errors :: "world \<Rightarrow> ValidationResult \<Rightarrow> console_call list" where
  "print_file_errors w result =
     (if length (errors result) > 0
      then console_log (''./team/'' @ path_relative w (cwd w) (rfile result) @ '':'')
             # map (\<lambda>error. console_log (''  - '' @ error)) (errors result)
      else [])"

text \<open>
  \<open>printResults\<close> (lines 152 to 192): the console calls it makes.  The scripts differ in
  the projects file they name in the tips.
\<close>

definition printResults_for ::
  "world \<Rightarrow> string \<Rightarrow> ValidationResult list \<Rightarrow> console_call list" where
  "printResults_for w projects_file results =
     (let hasErrors = list_ex (\<lambda>r. length (errors r) > 0) results
      in [console_clear]
         @ (if hasErrors
            then [console_log (CROSS_MARK @ '' Found errors:'' @ NEWLINE),
                  console_log ''--------------------------------'']
                 @ concat (map (print_file_errors w) results)
                 @ [console_log (''--------------------------------'' @ NEWLINE)]
            else [console_log (PARTY_POPPER @ '' Great news:'')])
         @ [console_log (show_nat (length (filter isValid results)) @ ''/''
                           @ show_nat (length results) @ '' files valid'')]
         @ (if hasErrors
            then [console_log (NEWLINE @ LIGHT_BULB @ '' Tips:''),
                  console_log (''   '' @ BULLET
                     @ '' Project names and roles must match those in ./''
                     @ path_relative w (cwd w) projects_file),
                  console_log (''   '' @ BULLET @ '' Ensure all required fields (''
                     @ join (required_fields w) '', '' @ '') are present''),
                  console_log (''   '' @ BULLET @ '' Verify contact URLs are valid'')]
            else []))"

definition printResults :: "world \<Rightarrow> ValidationResult list \<Rightarrow> console_call list" where
  "printResults w results = printResults_for w (PROJECTS_FILE w) results"

subsection \<open>The runner and its cancellation\<close>

text \<open>
  The mutable state of the process: the console, the abort controllers created so far (each
  with the \<open>aborted\<close> flag of its signal) and the global \<open>currentValidationController\<close>.
\<close>

record process =
  console :: "console_call list"
  controllers :: "bool list"
  currentValidationController :: "nat option"

definition initial_process :: process where
  "initial_process = \<lparr>console = [], controllers = [], currentValidationController = None\<rparr>"

text \<open>
  \<open>runValidation\<close> up to its \<open>await sleep(200)\<close> (lines 195 to 207): abort the pass in
  flight, make the controller of this one, announce the pass.  It returns the new controller.
\<close>

definition runValidation_start :: "process \<Rightarrow> nat \<times> process" where
  "runValidation_start s =
     (let s1 = (case currentValidationController s of
                  None \<Rightarrow> s
                | Some c \<Rightarrow> s\<lparr>controllers := (controllers s)[c := True]\<rparr>);
          c' = length (controllers s1);
          s2 = s1\<lparr>controllers := controllers s1 @ [False],
                  currentValidationController := Some c'\<rparr>
      in (c', s2\<lparr>console := console s2
                   @ [console_clear, console_log ''Running validation...'']\<rparr>))"

text \<open>
  The pass itself: the value of \<open>validateAllTeamFiles(signal)\<close> in \<open>runValidation\<close>, for the
  controller \<open>c\<close> of the pass in the state the process has when the sleep is over.
\<close>

definition pass_results ::
  "world \<Rightarrow> nat \<Rightarrow> process \<Rightarrow> (thrown + ValidationResult) list \<times> console_call list" where
  "pass_results w c s = validateAllTeamFiles w (Some (controllers s ! c))"

text \<open>
  \<open>runValidation\<close> after the sleep (lines 209 to 226): \<open>Inr hasErrors\<close> when it returns,
  \<open>Inl e\<close> when it rethrows.  The \<open>finally\<close> block forgets the controller if it is still
  the current one.
\<close>

definition runValidation_finish ::
  "world \<Rightarrow> bool \<Rightarrow> nat \<Rightarrow> process \<Rightarrow> (thrown + bool) \<times> process" where
  "runValidation_finish w isWatchMode c s =
     (let (promises, logged) = pass_results w c s;
          s1 = s\<lparr>console := console s @ logged\<rparr>;
          (r, s2) =
            (case Promise_all promises of
               Inr results \<Rightarrow>
                 (Inr (list_ex (\<lambda>r. \<not> isValid r) results),
                  s1\<lparr>console := console s1 @ printResults w results
                        @ (if isWatchMode then [console_log ''Waiting for more changes...'']
                           else [])\<rparr>)
             | Inl e \<Rightarrow> if is_AbortError e then (Inr False, s1) else (Inl e, s1))
      in (r, if currentValidationController s2 = Some c
             then s2\<lparr>currentValidationController := None\<rparr> else s2))"

text \<open>A pass that no other pass interrupts.\<close>

definition runValidation :: "world \<Rightarrow> bool \<Rightarrow> process \<Rightarrow> (thrown + bool) \<times> process" where
  "runValidation w isWatchMode s =
     (let (c, s1) = runValidation_start s in runValidation_finish w isWatchMode c s1)"

subsection \<open>The entry point\<close>

definition isWatchMode :: "string list \<Rightarrow> bool" where
  "isWatchMode argv = (''--watch'' \<in> set argv \<or> ''-w'' \<in> set argv)"

text \<open>
  How the module body ends (lines 274 to 284): \<open>process.exit\<close> with a status, a rejected
  top-level \<open>await\<close>, or the watch mode, which stays alive until it is interrupted.
\<close>

datatype outcome = Exit nat | Rejected thrown | Watching

definition main :: "world \<Rightarrow> string list \<Rightarrow> process \<Rightarrow> outcome \<times> process" where
  "main w argv s =
     (if isWatchMode argv
      then (Watching, snd (runValidation_start
              (s\<lparr>console := console s @ [console_log (''Time to watch '' @
                   [CHR 0xF0, CHR 0x9F, CHR 0x91,
                    CHR 0x80])]\<rparr>)))
      else
        (case runValidation w False s of
           (Inr hasErrors, s') \<Rightarrow> (Exit (if hasErrors then 1 else 0), s')
         | (Inl e, s') \<Rightarrow> (Rejected e, s')))"

section \<open>The schema of \<^verbatim>\<open>part_004\<close> and the zod combinators it uses\<close>

text \<open>
  The schema file builds its schema from zod's \<open>string\<close>, \<open>enum\<close>, \<open>union\<close>, \<open>object\<close>
  (stripping unknown keys unless \<open>.strict()\<close> is called), \<open>array\<close> and \<open>default\<close>.
  zod is a library outside the repository; the scripts use its version 3 (\<open>unionErrors\<close>,
  \<open>invalid_enum_value\<close>, \<open>error.errors\<close>), and the combinators below follow the \<open>_parse\<close>
  methods of that version as they run under \<open>safeParseAsync\<close>.  \<open>ZodExternal\<close> stands for
  the \<open>contacts\<close> field, whose schema and transform come from the package
  \<^verbatim>\<open>@fujocoded/zod-transform-socials\<close>.  \<open>StringArray\<close> is not a zod type: it is an array
  of strings standing where a zod type is expected, which is what \<^verbatim>\<open>src/code/schema.ts\<close>
  gives to \<open>z.union\<close> and \<open>z.object\<close> for a project of \<open>PROJECT_ROLES\<close> (type annotations
  do not run, and neither combinator inspects its arguments when the schema is built).
\<close>

datatype UnknownKeys = strip | strict

datatype ZodType =
    ZodString
  | ZodEnum "string list"
  | ZodUnion "ZodType list"
  | ZodObject "(string \<times> ZodType) list" UnknownKeys
  | ZodArray ZodType
  | ZodDefault ZodType jsval
  | ZodExternal
  | StringArray "string list"

text \<open>
  What parsing one node of a schema yields under \<open>safeParseAsync\<close>: status and value, the
  issues pushed before the call returns (\<open>now\<close>) and the issues pushed by promise handlers
  that run afterwards (\<open>later\<close>, listed in the order of the traversal).  zod reports the
  failure of a union from the handler of \<open>Promise.all\<close> over its options.
\<close>

record ParseResult =
  pstatus :: ParseStatus
  pvalue :: jsval
  now :: "ZodIssue list"
  later :: "ZodIssue list"

text \<open>
  What zod takes from outside the schema file: the error map that words each issue, the
  parser of the \<open>contacts\<close> field, and the order in which the event loop runs the handlers
  that push the deferred issues of a value.
\<close>

record zod_env =
  errorMap :: "pkey list \<Rightarrow> ZodIssueCode \<Rightarrow> string"
  external :: "pkey list \<Rightarrow> jsval \<Rightarrow> ParseResult"
  microtask_order :: "jsval \<Rightarrow> ZodIssue list \<Rightarrow> ZodIssue list"

fun getParsedType :: "jsval \<Rightarrow> string" where
  "getParsedType JUndefined = ''undefined''"
| "getParsedType JNull = ''null''"
| "getParsedType (JBoolean b) = ''boolean''"
| "getParsedType (JNumber n) = ''number''"
| "getParsedType JNaN = ''nan''"
| "getParsedType (JInfinity b) = ''number''"
| "getParsedType (JString s) = ''string''"
| "getParsedType (JArray xs) = ''array''"
| "getParsedType (JObject fs) = ''object''"

definition quoted :: "string \<Rightarrow> string" where
  "quoted v = [CHR 0x27] @ v @ [CHR 0x27]"

definition joinValues :: "string list \<Rightarrow> string" where
  "joinValues vs = join (map quoted vs) '' | ''"

definition addIssue :: "zod_env \<Rightarrow> pkey list \<Rightarrow> ZodIssueCode \<Rightarrow> ZodIssue" where
  "addIssue env p c = Issue p (errorMap env p c) c"

definition INVALID :: "ZodIssue list \<Rightarrow> ZodIssue list \<Rightarrow> ParseResult" where
  "INVALID n l = \<lparr>pstatus = aborted, pvalue = JUndefined, now = n, later = l\<rparr>"

definition OK :: "jsval \<Rightarrow> ParseResult" where
  "OK v = \<lparr>pstatus = valid, pvalue = v, now = [], later = []\<rparr>"

text \<open>
  The status of an array or an object from those of its parts: aborted if a part aborted,
  else dirty if a part is dirty or the object itself was marked dirty (\<open>d\<close>).
\<close>

definition merge_status :: "bool \<Rightarrow> ParseResult list \<Rightarrow> ParseStatus" where
  "merge_status d rs =
     (if list_ex (\<lambda>r. pstatus r = aborted) rs then aborted
      else if d \<or> list_ex (\<lambda>r. pstatus r = dirty) rs then dirty
      else valid)"

definition mergeArray :: "ParseResult list \<Rightarrow> ParseResult" where
  "mergeArray rs =
     (let st = merge_status False rs
      in \<lparr>pstatus = st,
          pvalue = (if st = aborted then JUndefined else JArray (map pvalue rs)),
          now = concat (map now rs), later = concat (map later rs)\<rparr>)"

text \<open>
  The handler of a union: the first valid option wins; else the first dirty one, whose
  issues are passed on; else one \<open>invalid_union\<close> issue holding the issues of every option.
\<close>

definition handleResults :: "zod_env \<Rightarrow> pkey list \<Rightarrow> ParseResult list \<Rightarrow> ParseResult" where
  "handleResults env p rs =
     (case find (\<lambda>r. pstatus r = valid) rs of
        Some r \<Rightarrow> OK (pvalue r)
      | None \<Rightarrow>
         (case find (\<lambda>r. pstatus r = dirty) rs of
            Some r \<Rightarrow> \<lparr>pstatus = dirty, pvalue = pvalue r, now = [], later = now r @ later r\<rparr>
          | None \<Rightarrow>
             INVALID [] [addIssue env p (invalid_union (map (\<lambda>r. now r @ later r) rs))]))"

text \<open>
  An object after its shape keys were parsed (\<open>pairs\<close>): in strict mode the keys of the data
  outside the shape are reported in one \<open>unrecognized_keys\<close> issue, pushed before the call
  returns, and make the object dirty; in strip mode they are dropped without an issue.
\<close>

definition mergeObject ::
  "zod_env \<Rightarrow> pkey list \<Rightarrow> UnknownKeys \<Rightarrow> string list \<Rightarrow> string list
     \<Rightarrow> (string \<times> ParseResult) list \<Rightarrow> ParseResult" where
  "mergeObject env p unknownKeys shapeKeys dataKeys pairs =
     (let extraKeys = filter (\<lambda>key. key \<notin> set shapeKeys) dataKeys;
          unrecognized = (unknownKeys = strict \<and> extraKeys \<noteq> []);
          st = merge_status unrecognized (map snd pairs)
      in \<lparr>pstatus = st,
          pvalue = (if st = aborted then JUndefined
                    else JObject (map (\<lambda>(key, r). (key, pvalue r))
                           (filter (\<lambda>(key, r). key \<noteq> ''__proto__''
                               \<and> (pvalue r \<noteq> JUndefined \<or> key \<in> set dataKeys)) pairs))),
          now = concat (map (\<lambda>(key, r). now r) pairs)
                  @ (if unrecognized then [addIssue env p (unrecognized_keys extraKeys)] else []),
          later = concat (map (\<lambda>(key, r). later r) pairs)\<rparr>)"

text \<open>\<open>data[key]\<close> on a plain object.\<close>

definition property :: "(string \<times> jsval) list \<Rightarrow> string \<Rightarrow> jsval" where
  "property fs key = (case map_of fs key of None \<Rightarrow> JUndefined | Some v \<Rightarrow> v)"

fun zparse :: "zod_env \<Rightarrow> ZodType \<Rightarrow> pkey list \<Rightarrow> jsval \<Rightarrow> ParseResult" where
  "zparse env ZodString p d =
     (case d of
        JString s \<Rightarrow> OK d
      | _ \<Rightarrow> INVALID [addIssue env p (invalid_type ''string'' (getParsedType d))] [])"
| "zparse env (ZodEnum values) p d =
     (case d of
        JString s \<Rightarrow>
          if s \<in> set values then OK d
          else INVALID [addIssue env p (invalid_enum_value s values)] []
      | _ \<Rightarrow> INVALID [addIssue env p (invalid_type (joinValues values) (getParsedType d))] [])"
| "zparse env (ZodUnion options) p d =
     handleResults env p (map (\<lambda>option. zparse env option p d) options)"
| "zparse env (ZodObject shape unknownKeys) p d =
     (case d of
        JObject fs \<Rightarrow>
          mergeObject env p unknownKeys (map fst shape) (map fst fs)
            (map (\<lambda>(key, t). (key, zparse env t (p @ [Key key]) (property fs key))) shape)
      | _ \<Rightarrow> INVALID [addIssue env p (invalid_type ''object'' (getParsedType d))] [])"
| "zparse env (ZodArray t) p d =
     (case d of
        JArray xs \<Rightarrow>
          mergeArray (map (\<lambda>(i, x). zparse env t (p @ [Idx i]) x) (enumerate 0 xs))
      | _ \<Rightarrow> INVALID [addIssue env p (invalid_type ''array'' (getParsedType d))] [])"
| "zparse env (ZodDefault t defaultValue) p d =
     zparse env t p (if d = JUndefined then defaultValue else d)"
| "zparse env ZodExternal p d = external env p d"
| "zparse env (StringArray values) p d = INVALID [] []"

text \<open>
  An array has no \<open>_parse\<close> and no \<open>_parseAsync\<close> method, so a traversal that comes to a
  \<open>StringArray\<close> throws a \<open>TypeError\<close> and the promise of \<open>safeParseAsync\<close> rejects; the last
  clause of \<open>zparse\<close> is never the outcome of a parse.  \<open>throws_TypeError t d\<close> tells
  whether parsing \<open>d\<close> against \<open>t\<close> comes to one: a union parses every option, an object
  every key of its shape and an array every item, and none of them looks at its parts when
  the data is of the wrong type.
\<close>

fun throws_TypeError :: "ZodType \<Rightarrow> jsval \<Rightarrow> bool" where
  "throws_TypeError ZodString d = False"
| "throws_TypeError (ZodEnum values) d = False"
| "throws_TypeError (ZodUnion options) d = list_ex (\<lambda>option. throws_TypeError option d) options"
| "throws_TypeError (ZodObject shape unknownKeys) d =
     (case d of
        JObject fs \<Rightarrow> list_ex (\<lambda>(key, t). throws_TypeError t (property fs key)) shape
      | _ \<Rightarrow> False)"
| "throws_TypeError (ZodArray t) d =
     (case d of JArray xs \<Rightarrow> list_ex (throws_TypeError t) xs | _ \<Rightarrow> False)"
| "throws_TypeError (ZodDefault t defaultValue) d =
     throws_TypeError t (if d = JUndefined then defaultValue else d)"
| "throws_TypeError ZodExternal d = False"
| "throws_TypeError (StringArray values) d = True"

subsection \<open>The project registry (\<^verbatim>\<open>part_003\<close>)\<close>

definition PROJECTS :: "string list" where
  "PROJECTS = [''Volume 0 Kickstarter'', ''Volume 0'', ''Website'', ''Volume 0 Issue 1'',
     ''Fandom Cookies'']"

definition VOLUME_0_ISSUE_1_ROLES :: "string list" where
  "VOLUME_0_ISSUE_1_ROLES = [''Technical Writer'', ''Scenario Writer'',
     ''Beta Reading Coordinator'', ''Beta Reader'', ''Proofreader'', ''Artist'',
     ''Tasks Coordinator'', ''Communications'', ''Character Designer'', ''Additional Coding'',
     ''Data Collection & Entry'']"

definition PROJECT_ROLES :: "(string \<times> string list) list" where
  "PROJECT_ROLES = [(''Volume 0 Issue 1'', VOLUME_0_ISSUE_1_ROLES)]"

subsection \<open>The schema (\<^verbatim>\<open>part_004\<close>)\<close>

text \<open>\<open>Object.fromEntries\<close>: a later entry of the same key replaces the value in place.\<close>

definition fromEntries :: "(string \<times> 'a) list \<Rightarrow> (string \<times> 'a) list" where
  "fromEntries entries = foldl (\<lambda>obj (key, v). AList.update key v obj) [] entries"

definition Role :: "ZodType \<Rightarrow> ZodType" where
  "Role roleType =
     ZodUnion [roleType, ZodObject [(''role'', roleType), (''details'', ZodString)] strip]"

text \<open>\<open>Roles\<close> (lines 21 to 36), for a registry given as the two tables of the projects file.\<close>

definition Roles :: "string list \<Rightarrow> (string \<times> string list) list \<Rightarrow> ZodType" where
  "Roles projects project_roles =
     ZodObject
       (fromEntries
          (map (\<lambda>project.
                  (project,
                   ZodDefault
                     (ZodArray
                        (Role (case map_of project_roles project of
                                 Some roles \<Rightarrow> ZodEnum roles
                               | None \<Rightarrow> ZodString)))
                     (JArray [])))
             projects))
       strict"

definition TeamContributor :: "string list \<Rightarrow> (string \<times> string list) list \<Rightarrow> ZodType" where
  "TeamContributor projects project_roles =
     ZodObject
       [(''name'', ZodString), (''avatar'', ZodString),
        (''roles'', Roles projects project_roles), (''contacts'', ZodExternal)]
       strip"

text \<open>
  The schema as the script sees it: the issues pushed during the call come first, the
  deferred ones follow in the order the event loop gives them.  In the schemas of this
  repository an array of strings in the place of a zod type is the first option of a union,
  whose handler calls \<open>option._parseAsync\<close>; the message is the one Node gives.
\<close>

definition zod_parseAsync :: "zod_env \<Rightarrow> ZodType \<Rightarrow> jsval \<Rightarrow> thrown + ParseReturn" where
  "zod_parseAsync env schema data =
     (if throws_TypeError schema data
      then Inl (JsError ''TypeError'' ''option._parseAsync is not a function'')
      else
        (let r = zparse env schema [] data
         in Inr \<lparr>status = pstatus r, parsed = pvalue r,
                 issues = now r @ microtask_order env data (later r)\<rparr>))"

section \<open>The script of \<^verbatim>\<open>part_000\<close>\<close>

text \<open>
  The first script validates synchronously, has no cancellation and no avatar check, and
  knows one escalation only, whose message gives the file path as it is (lines 18 to 39).
\<close>

definition new_InvalidRoleError_p000 :: "string \<Rightarrow> string \<Rightarrow> thrown" where
  \<open>new_InvalidRoleError_p000 projectName filePath =
     InvalidRoleError (''Invalid role in project "'' @ projectName @ ''" for file ''
       @ filePath @ ''.'')\<close>

fun invalid_role_check_p000 :: "ZodIssue \<Rightarrow> string \<Rightarrow> thrown option" where
  "invalid_role_check_p000 (Issue p m (invalid_union us)) filePath =
     (if str_includes (path_join_dot p) ''roles.''
      then Some (new_InvalidRoleError_p000 (split_dot_1 (path_join_dot p)) filePath)
      else None)"
| "invalid_role_check_p000 e filePath = None"

definition formatValidationError_p000 :: "ZodIssue \<Rightarrow> string \<Rightarrow> thrown + string" where
  "formatValidationError_p000 error filePath =
     (case invalid_role_check_p000 error filePath of
        Some e \<Rightarrow> Inl e
      | None \<Rightarrow>
         if path error \<noteq> [] then Inr (path_join_dot (path error) @ '': '' @ message error)
         else Inr (message error))"

text \<open>The \<open>try\<close> block of its \<open>validateTeamFile\<close> (lines 50 to 60).\<close>

definition validateTeamFile_try_p000 ::
  "world \<Rightarrow> string \<Rightarrow> ValidationResult \<Rightarrow> thrown + ValidationResult" where
  "validateTeamFile_try_p000 w filePath result =
     (case readFileSync w filePath of
        Inl e \<Rightarrow> Inl e
      | Inr content \<Rightarrow>
         (case parse w content of
            Inl e \<Rightarrow> Inl e
          | Inr data \<Rightarrow>
             (case TeamContributor_safeParse w data of
                Inl e \<Rightarrow> Inl e
              | Inr Success \<Rightarrow> Inr (result\<lparr>isValid := True\<rparr>)
              | Inr (Failure es) \<Rightarrow>
                 (case map_throwing (\<lambda>error. formatValidationError_p000 error filePath) es of
                    Inl e \<Rightarrow> Inl e
                  | Inr strs \<Rightarrow> Inr (result\<lparr>errors := strs\<rparr>)))))"

text \<open>Its handler catches whatever is thrown (lines 61 to 67).\<close>

definition validateTeamFile_p000 :: "world \<Rightarrow> string \<Rightarrow> ValidationResult" where
  "validateTeamFile_p000 w filePath =
     (let result = \<lparr>rfile = filePath, isValid = False, errors = [], warnings = []\<rparr>
      in case validateTeamFile_try_p000 w filePath result of
           Inr r \<Rightarrow> r
         | Inl e \<Rightarrow>
            result\<lparr>errors := errors result @ [''Failed to parse file: '' @ error_text e]\<rparr>)"

text \<open>\<open>validateAllTeamFiles\<close> (lines 72 to 92).\<close>

definition validateAllTeamFiles_p000 ::
  "world \<Rightarrow> ValidationResult list \<times> console_call list" where
  "validateAllTeamFiles_p000 w =
     (case team_files w of
        Inr files \<Rightarrow> (map (\<lambda>file. validateTeamFile_p000 w file) files, [])
      | Inl e \<Rightarrow> ([], [console_error (''Error reading team directory: '' @ error_text e)]))"

definition PROJECTS_FILE_p000 :: "world \<Rightarrow> string" where
  "PROJECTS_FILE_p000 w = path_resolve w (cwd w) ''code/data/projects.ts''"

text \<open>\<open>runValidation\<close> (lines 136 to 142): what it writes to the console.\<close>

definition runValidation_p000 :: "world \<Rightarrow> bool \<Rightarrow> console_call list" where
  "runValidation_p000 w watching =
     (let (results, logged) = validateAllTeamFiles_p000 w
      in logged @ printResults_for w (PROJECTS_FILE_p000 w) results
         @ (if watching then [console_log ''Waiting for more changes...''] else []))"

text \<open>
  The module body (lines 190 to 203): in single-pass mode it prints the report of one pass
  and takes the exit status from the results of a second call of \<open>validateAllTeamFiles\<close>.
\<close>

definition main_p000 :: "world \<Rightarrow> string list \<Rightarrow> outcome \<times> console_call list" where
  "main_p000 w argv =
     (if isWatchMode argv
      then (Watching,
            console_log (''Time to watch '' @ [CHR 0xF0, CHR 0x9F, CHR 0x91, CHR 0x80])
              # runValidation_p000 w False)
      else
        (let printed = runValidation_p000 w False;
             (results, logged) = validateAllTeamFiles_p000 w;
             hasErrors = list_ex (\<lambda>r. \<not> isValid r) results
         in (Exit (if hasErrors then 1 else 0), printed @ logged)))"

section \<open>The classifier of \<^verbatim>\<open>part_001\<close>\<close>





section \<open>The schema of \<^verbatim>\<open>src/code/schema.ts\<close>\<close>

text \<open>
  The earlier schema file hands \<open>PROJECT_ROLES[project]\<close> to \<open>Role\<close> as it is: the array of
  role names for a project of the registry, and \<open>undefined\<close>, which the default parameter
  \<open>z.string()\<close> replaces, for every other project.  It builds \<open>Roles\<close> without \<open>.strict()\<close>
  (lines 8 to 26).
\<close>

definition Roles_schema_ts :: "string list \<Rightarrow> (string \<times> string list) list \<Rightarrow> ZodType" where
  "Roles_schema_ts projects project_roles =
     ZodObject
       (fromEntries
          (map (\<lambda>project.
                  (project,
                   ZodDefault
                     (ZodArray
                        (Role (case map_of project_roles project of
                                 Some roles \<Rightarrow> StringArray roles
                               | None \<Rightarrow> ZodString)))
                     (JArray [])))
             projects))
       strip"

definition TeamContributor_schema_ts ::
  "string list \<Rightarrow> (string \<times> string list) list \<Rightarrow> ZodType" where
  "TeamContributor_schema_ts projects project_roles =
     ZodObject
       [(''name'', ZodString), (''avatar'', ZodString),
        (''roles'', Roles_schema_ts projects project_roles), (''contacts'', ZodExternal)]
       strip"

section \<open>Notions used in the statements\<close>

text \<open>
  The file system, the YAML parser and the schema throw their own errors (system errors,
  \<open>YAMLParseError\<close>, \<open>TypeError\<close>), none of which is named \<open>AbortError\<close>: that name belongs to
  the cancellation signal.
\<close>

definition no_external_abort :: "world \<Rightarrow> bool" where
  "no_external_abort w =
     ((\<forall>f e. readFileSync w f = Inl e \<longrightarrow> \<not> is_AbortError e)
      \<and> (\<forall>c e. parse w c = Inl e \<longrightarrow> \<not> is_AbortError e)
      \<and> (\<forall>d e. TeamContributor_parseAsync w d = Inl e \<longrightarrow> \<not> is_AbortError e))"

text \<open>The record files a pass enumerates.\<close>

definition enumerated :: "world \<Rightarrow> string list" where
  "enumerated w = (case team_files w of Inr files \<Rightarrow> files | Inl e \<Rightarrow> [])"

text \<open>
  Two worlds that a pass cannot tell apart: the same configuration, the same listing of the
  record directory, the same contents of the listed files and the same existing files.
\<close>

definition same_inputs :: "world \<Rightarrow> world \<Rightarrow> bool" where
  "same_inputs w w' =
     (cwd w' = cwd w \<and> path_resolve w' = path_resolve w
      \<and> path_resolve_TypeError w' = path_resolve_TypeError w
      \<and> path_dirname w' = path_dirname w \<and> path_relative w' = path_relative w
      \<and> path_join w' = path_join w \<and> parse w' = parse w
      \<and> TeamContributor_parseAsync w' = TeamContributor_parseAsync w
      \<and> TeamContributor_safeParse w' = TeamContributor_safeParse w
      \<and> required_fields w' = required_fields w
      \<and> access w' = access w
      \<and> readdirSync w' (TEAM_DIR w) = readdirSync w (TEAM_DIR w)
      \<and> (\<forall>f\<in>set (enumerated w). readFileSync w' f = readFileSync w f))"

text \<open>An issue of a value of the wrong type, which the classifier formats as it is.\<close>

definition is_invalid_type :: "ZodIssue \<Rightarrow> bool" where
  "is_invalid_type i = (case detail i of invalid_type e r \<Rightarrow> True | _ \<Rightarrow> False)"

text \<open>
  The keys under \<open>roles\<close> that are not project names, in the order of the record: the
  \<open>keys\<close> of the \<open>unrecognized_keys\<close> issue of a strict \<open>Roles\<close> object.
\<close>

definition extraKeys :: "string list \<Rightarrow> (string \<times> jsval) list \<Rightarrow> string list" where
  "extraKeys projects rs = filter (\<lambda>key. key \<notin> set projects) (map fst rs)"


section \<open>An example repository\<close>

text \<open>zod's default error map, for the codes this schema produces.\<close>

fun defaultErrorMap :: "pkey list \<Rightarrow> ZodIssueCode \<Rightarrow> string" where
  "defaultErrorMap p (invalid_type expected received) =
     (if received = ''undefined'' then ''Required''
      else ''Expected '' @ expected @ '', received '' @ received)"
| "defaultErrorMap p (unrecognized_keys ks) =
     ''Unrecognized key(s) in object: '' @ join (map quoted ks) '', ''"
| "defaultErrorMap p (invalid_union us) = ''Invalid input''"
| "defaultErrorMap p (invalid_enum_value received options) =
     ''Invalid enum value. Expected '' @ joinValues options @ '', received '' @ quoted received"
| "defaultErrorMap p c = ''Invalid input''"

definition example_env :: zod_env where
  "example_env =
     \<lparr>errorMap = defaultErrorMap,
      external = (\<lambda>p d. if d = JUndefined then OK (JArray []) else OK d),
      microtask_order = (\<lambda>d l. l)\<rparr>"

definition ENOENT :: thrown where
  "ENOENT = JsError ''Error'' ''ENOENT: no such file or directory''"

text \<open>
  A record directory with six entries, five of them record files: a valid record, one with
  an unknown project, a number as a role and a missing avatar, one with a role outside the
  list of a restricted project, one whose only defect is the missing avatar, and one that is
  not YAML.  The schema is that of \<^verbatim>\<open>part_004\<close> over the registry of \<^verbatim>\<open>part_003\<close>; for
  the synchronous parse the example lists the issues in the same order.
\<close>

definition example_world :: world where
  \<open>example_world =
     \<lparr>cwd = ''/repo'',
      readdirSync = (\<lambda>d. if d = ''/repo/team''
         then Inr [''ada.yaml'', ''README.md'', ''bob.yml'', ''cyd.yaml'', ''dee.yaml'',
                   ''eve.yaml'']
         else Inl ENOENT),
      readFileSync = (\<lambda>f.
         if f = ''/repo/team/ada.yaml''
           then Inr ''{name: Ada, avatar: ada.png, roles: {Website: [Developer]}}''
         else if f = ''/repo/team/bob.yml''
           then Inr ''{name: Bob, avatar: bob.png, roles: {Website: [7], Podcast: [Host]}}''
         else if f = ''/repo/team/cyd.yaml''
           then Inr ''{name: Cyd, avatar: ada.png, roles: {Volume 0 Issue 1: [Painter]}}''
         else if f = ''/repo/team/dee.yaml''
           then Inr ''{name: Dee, avatar: dee.png, roles: {}}''
         else if f = ''/repo/team/eve.yaml''
           then Inr ''{name: Eve''
         else Inl ENOENT),
      parse = (\<lambda>c.
         if c = ''{name: Ada, avatar: ada.png, roles: {Website: [Developer]}}''
           then Inr (JObject [(''name'', JString ''Ada''), (''avatar'', JString ''ada.png''),
                  (''roles'', JObject [(''Website'', JArray [JString ''Developer''])])])
         else if c = ''{name: Bob, avatar: bob.png, roles: {Website: [7], Podcast: [Host]}}''
           then Inr (JObject [(''name'', JString ''Bob''), (''avatar'', JString ''bob.png''),
                  (''roles'', JObject [(''Website'', JArray [JNumber 7]),
                                      (''Podcast'', JArray [JString ''Host''])])])
         else if c = ''{name: Cyd, avatar: ada.png, roles: {Volume 0 Issue 1: [Painter]}}''
           then Inr (JObject [(''name'', JString ''Cyd''), (''avatar'', JString ''ada.png''),
                  (''roles'', JObject [(''Volume 0 Issue 1'', JArray [JString ''Painter''])])])
         else if c = ''{name: Dee, avatar: dee.png, roles: {}}''
           then Inr (JObject [(''name'', JString ''Dee''), (''avatar'', JString ''dee.png''),
                  (''roles'', JObject [])])
         else Inl (JsError ''YAMLParseError'' ''Flow map must end with a }'')),
      access = (\<lambda>f. f = ''/repo/team/ada.png''),
      path_resolve = (\<lambda>a b. a @ ''/'' @ b),
      path_resolve_TypeError = (\<lambda>v. ''The "paths[1]" argument must be of type string.''),
      path_dirname = (\<lambda>f. ''/repo/team''),
      path_relative = (\<lambda>a b. drop (length a + 1) b),
      path_join = (\<lambda>a b. a @ ''/'' @ b),
      TeamContributor_parseAsync =
         zod_parseAsync example_env (TeamContributor PROJECTS PROJECT_ROLES),
      TeamContributor_safeParse = (\<lambda>d.
         case zod_parseAsync example_env (TeamContributor PROJECTS PROJECT_ROLES) d of
           Inl e \<Rightarrow> Inl e
         | Inr r \<Rightarrow> handleResult (status r) (issues r)),
      required_fields = [''name'', ''avatar'', ''roles'']\<rparr>\<close>

definition example_files :: "string list" where
  "example_files = [''/repo/team/ada.yaml'', ''/repo/team/bob.yml'', ''/repo/team/cyd.yaml'',
     ''/repo/team/dee.yaml'', ''/repo/team/eve.yaml'']"

text \<open>The same repository without its record directory.\<close>

definition empty_world :: world where
  "empty_world = example_world\<lparr>readdirSync := (\<lambda>d. Inl ENOENT)\<rparr>"

text \<open>The example repository with a single, valid record.\<close>

definition valid_world :: world where
  "valid_world = example_world\<lparr>readdirSync := (\<lambda>d. Inr [''ada.yaml''])\<rparr>"

text \<open>The example repository after a file outside the record set was edited.\<close>

definition touched_world :: world where
  "touched_world = example_world\<lparr>readFileSync := (\<lambda>f.
      if f = ''/repo/README.md'' then Inr ''edited'' else readFileSync example_world f)\<rparr>"

definition argv0 :: "string list" where
  "argv0 = [''node'', ''validate.ts'']"

text \<open>The process after a second pass was started while the first one was still asleep.\<close>

definition two_passes_started :: process where
  "two_passes_started = snd (runValidation_start (snd (runValidation_start initial_process)))"

text \<open>The record of \<^verbatim>\<open>bob.yml\<close>, its text and the issues zod reports for it.\<close>

definition bob_text :: string where
  "bob_text = ''{name: Bob, avatar: bob.png, roles: {Website: [7], Podcast: [Host]}}''"

definition bob_roles :: "(string \<times> jsval) list" where
  "bob_roles = [(''Website'', JArray [JNumber 7]), (''Podcast'', JArray [JString ''Host''])]"

definition bob_fields :: "(string \<times> jsval) list" where
  "bob_fields = [(''name'', JString ''Bob''), (''avatar'', JString ''bob.png''),
                 (''roles'', JObject bob_roles)]"

definition bob_record :: jsval where
  "bob_record = JObject bob_fields"

definition bob_unknown_project :: ZodIssue where
  "bob_unknown_project =
     Issue [Key ''roles''] (''Unrecognized key(s) in object: '' @ quoted ''Podcast'')
       (unrecognized_keys [''Podcast''])"

definition bob_bad_role :: ZodIssue where
  "bob_bad_role =
     Issue [Key ''roles'', Key ''Website'', Idx 0] ''Invalid input''
       (invalid_union
          [[Issue [Key ''roles'', Key ''Website'', Idx 0] ''Expected string, received number''
              (invalid_type ''string'' ''number'')],
           [Issue [Key ''roles'', Key ''Website'', Idx 0] ''Expected object, received number''
              (invalid_type ''object'' ''number'')]])"


text \<open>The record of \<^verbatim>\<open>dee.yaml\<close> and what the schema makes of it.\<close>

definition dee_text :: string where
  "dee_text = ''{name: Dee, avatar: dee.png, roles: {}}''"

definition dee_record :: jsval where
  "dee_record = JObject [(''name'', JString ''Dee''), (''avatar'', JString ''dee.png''),
                  (''roles'', JObject [])]"

definition dee_parsed :: ParseReturn where
  "dee_parsed =
     \<lparr>status = valid,
      parsed = JObject [(''name'', JString ''Dee''), (''avatar'', JString ''dee.png''),
         (''roles'', JObject [(''Volume 0 Kickstarter'', JArray []), (''Volume 0'', JArray []),
            (''Website'', JArray []), (''Volume 0 Issue 1'', JArray []),
            (''Fandom Cookies'', JArray [])]),
         (''contacts'', JArray [])],
      issues = []\<rparr>"

text \<open>A record whose only defect is a key under \<open>roles\<close> that is not a project.\<close>

definition pat_record :: jsval where
  "pat_record =
     JObject [(''name'', JString ''Pat''), (''avatar'', JString ''ada.png''),
              (''roles'', JObject [(''Website'', JArray [JString ''Dev'']),
                                  (''Podcast'', JArray [JString ''Host''])])]"


definition cyd_roles :: "(string \<times> jsval) list" where
  "cyd_roles = [(''Volume 0 Issue 1'', JArray [JString ''Painter''])]"

definition cyd_fields :: "(string \<times> jsval) list" where
  "cyd_fields = [(''name'', JString ''Cyd''), (''avatar'', JString ''ada.png''),
                 (''roles'', JObject cyd_roles)]"




section \<open>Properties of the classifier and of the per-file handler\<close>

lemma formatValidationError_not_abort:
  "formatValidationError w e fp = Inl t \<Longrightarrow> \<not> is_AbortError t"
  by (auto simp: formatValidationError_def is_AbortError_def new_InvalidProjectError_def
        new_InvalidRoleError_def split: option.splits if_splits
        elim!: unknown_project_check.elims invalid_role_check.elims)

lemma formatValidationError_thrown:
  "formatValidationError w e fp = Inl t \<Longrightarrow> instanceof_Error t"
  by (auto simp: formatValidationError_def new_InvalidProjectError_def
        new_InvalidRoleError_def split: option.splits if_splits
        elim!: unknown_project_check.elims invalid_role_check.elims)

lemma formatValidationError_escalation:
  "formatValidationError w e fp = Inl t \<Longrightarrow> \<forall>i p. path e \<noteq> Idx i # p \<Longrightarrow>
     \<exists>m. t = InvalidProjectError m \<or> t = InvalidRoleError m"
  by (auto simp: formatValidationError_def new_InvalidProjectError_def
        new_InvalidRoleError_def split: option.splits if_splits
        elim!: unknown_project_check.elims invalid_role_check.elims)

lemma map_throwing_Inl:
  "map_throwing f xs = Inl t \<Longrightarrow> \<exists>x\<in>set xs. f x = Inl t"
  by (induction xs) (auto split: sum.splits)

lemma map_throwing_Inr_length:
  "map_throwing f xs = Inr ys \<Longrightarrow> length ys = length xs"
  by (induction xs arbitrary: ys) (auto split: sum.splits)

lemma map_throwing_prefix:
  "\<forall>y\<in>set pre. \<exists>s. f y = Inr s \<Longrightarrow> f e = Inl t \<Longrightarrow> map_throwing f (pre @ e # post) = Inl t"
  by (induction pre) auto

lemma map_throwing_first:
  "x \<in> set xs \<Longrightarrow> f x = Inl t \<Longrightarrow>
     \<exists>pre e post t'. xs = pre @ e # post \<and> (\<forall>y\<in>set pre. \<exists>s. f y = Inr s) \<and> f e = Inl t'"
proof (induction xs)
  case Nil
  then show ?case by simp
next
  case (Cons a xs)
  show ?case
  proof (cases "f a")
    case (Inl t')
    then have "a # xs = [] @ a # xs \<and> (\<forall>y\<in>set []. \<exists>s. f y = Inr s) \<and> f a = Inl t'"
      by simp
    then show ?thesis by blast
  next
    case (Inr s)
    with Cons.prems have "x \<in> set xs" by auto
    from Cons.IH[OF this Cons.prems(2)] obtain pre e post t' where
      h: "xs = pre @ e # post" "\<forall>y\<in>set pre. \<exists>s. f y = Inr s" "f e = Inl t'"
      by blast
    have "a # xs = (a # pre) @ e # post \<and> (\<forall>y\<in>set (a # pre). \<exists>s. f y = Inr s)
        \<and> f e = Inl t'"
      using h Inr by simp
    then show ?thesis by blast
  qed
qed

lemma handleResult_Failure:
  "handleResult st iss = Inr (Failure es) \<Longrightarrow> es \<noteq> []"
  by (auto simp: handleResult_def split: if_splits)

lemma handleResult_not_abort:
  "handleResult st iss = Inl e \<Longrightarrow> \<not> is_AbortError e"
  by (auto simp: handleResult_def is_AbortError_def split: if_splits)

text \<open>
  C5: when an issue of a file makes the classifier throw, the mapping over the issues of
  the file stops at the first issue that throws, the per-file handler catches the error, and
  the result of the file holds exactly one error string: the message of that error after
  \<open>Failed to parse file: \<close>.  All other issues of the file are lost.  When no path starts
  with an array index, as under a schema that is an object, the error thrown is one of the
  two escalations.
\<close>

theorem escalation_single_error:
  assumes "signal \<noteq> Some True"
    and "readFileSync w fp = Inr content"
    and "parse w content = Inr data"
    and "safeParseAsync w fp data = Inr (Failure es)"
    and "x \<in> set es"
    and "formatValidationError w x fp = Inl t0"
  shows "\<exists>pre e post t. es = pre @ e # post
           \<and> (\<forall>y\<in>set pre. \<exists>s. formatValidationError w y fp = Inr s)
           \<and> formatValidationError w e fp = Inl t
           \<and> ((\<forall>y\<in>set es. \<forall>i p. path y \<noteq> Idx i # p)
                \<longrightarrow> (\<exists>m. t = InvalidProjectError m \<or> t = InvalidRoleError m))
           \<and> validateTeamFile w fp signal =
               Inr \<lparr>rfile = fp, isValid = False,
                    errors = [''Failed to parse file: '' @ error_message t], warnings = []\<rparr>"
proof -
  from map_throwing_first[of x es "\<lambda>error. formatValidationError w error fp", OF assms(5,6)]
  obtain pre e post t where
    h: "es = pre @ e # post" "\<forall>y\<in>set pre. \<exists>s. formatValidationError w y fp = Inr s"
       "formatValidationError w e fp = Inl t"
    by blast
  have m: "map_throwing (\<lambda>error. formatValidationError w error fp) es = Inl t"
    unfolding h(1) using h(2,3) by (rule map_throwing_prefix)
  have na: "\<not> is_AbortError t" using h(3) by (rule formatValidationError_not_abort)
  have ie: "instanceof_Error t" using h(3) by (rule formatValidationError_thrown)
  have esc: "(\<forall>y\<in>set es. \<forall>i p. path y \<noteq> Idx i # p)
                \<longrightarrow> (\<exists>m. t = InvalidProjectError m \<or> t = InvalidRoleError m)"
    using formatValidationError_escalation[OF h(3)] h(1) by auto
  have "validateTeamFile w fp signal =
               Inr \<lparr>rfile = fp, isValid = False,
                    errors = [''Failed to parse file: '' @ error_message t], warnings = []\<rparr>"
    using assms(1-4) m na ie
    by (simp add: validateTeamFile_def validateTeamFile_try_def error_text_def)
  with h esc show ?thesis by blast
qed

theorem escalation_single_error_witness:
  \<open>readFileSync example_world ''/repo/team/bob.yml'' = Inr bob_text
   \<and> parse example_world bob_text = Inr bob_record
   \<and> safeParseAsync example_world ''/repo/team/bob.yml'' bob_record
       = Inr (Failure [bob_unknown_project, bob_bad_role])
   \<and> formatValidationError example_world bob_bad_role ''/repo/team/bob.yml''
       = Inl (InvalidRoleError ''Invalid role in project "Website" for file ./team/bob.yml.'')
   \<and> validateTeamFile example_world ''/repo/team/bob.yml'' (Some False)
       = Inr \<lparr>rfile = ''/repo/team/bob.yml'', isValid = False,
              errors = [''Failed to parse file: Invalid project "Podcast" for file ./team/bob.yml.''],
              warnings = []\<rparr>
   \<and> (\<exists>pre e post t. [bob_unknown_project, bob_bad_role] = pre @ e # post
        \<and> (\<forall>y\<in>set pre. \<exists>s. formatValidationError example_world y ''/repo/team/bob.yml'' = Inr s)
        \<and> formatValidationError example_world e ''/repo/team/bob.yml'' = Inl t
        \<and> ((\<forall>y\<in>set [bob_unknown_project, bob_bad_role]. \<forall>i p. path y \<noteq> Idx i # p)
             \<longrightarrow> (\<exists>m. t = InvalidProjectError m \<or> t = InvalidRoleError m))
        \<and> validateTeamFile example_world ''/repo/team/bob.yml'' (Some False)
            = Inr \<lparr>rfile = ''/repo/team/bob.yml'', isValid = False,
                   errors = [''Failed to parse file: '' @ error_message t], warnings = []\<rparr>)\<close>
proof -
  have h0: "Some False \<noteq> Some True" by simp
  have h1: "readFileSync example_world ''/repo/team/bob.yml'' = Inr bob_text"
    by (simp add: example_world_def bob_text_def)
  have h2: "parse example_world bob_text = Inr bob_record"
    by (simp add: example_world_def bob_text_def bob_record_def bob_fields_def bob_roles_def)
  have h3: "safeParseAsync example_world ''/repo/team/bob.yml'' bob_record
       = Inr (Failure [bob_unknown_project, bob_bad_role])"
    by code_simp
  have h4: "bob_bad_role \<in> set [bob_unknown_project, bob_bad_role]" by simp
  have h5: \<open>formatValidationError example_world bob_bad_role ''/repo/team/bob.yml''
       = Inl (InvalidRoleError ''Invalid role in project "Website" for file ./team/bob.yml.'')\<close>
    by code_simp
  have c: \<open>validateTeamFile example_world ''/repo/team/bob.yml'' (Some False)
       = Inr \<lparr>rfile = ''/repo/team/bob.yml'', isValid = False,
              errors = [''Failed to parse file: Invalid project "Podcast" for file ./team/bob.yml.''],
              warnings = []\<rparr>\<close>
    by code_simp
  from escalation_single_error[OF h0 h1 h2 h3 h4 h5] h1 h2 h3 h5 c show ?thesis
    by blast
qed

section \<open>Isolation of failures and cancellation\<close>

lemma avatar_refinement_not_abort:
  "avatar_refinement w fp v = Inl e \<Longrightarrow> \<not> is_AbortError e"
  by (auto simp: avatar_refinement_def is_AbortError_def Let_def
        split: sum.splits jsval.splits if_splits elim!: get_avatar.elims)

lemma safeParseAsync_not_abort:
  "no_external_abort w \<Longrightarrow> safeParseAsync w fp d = Inl e \<Longrightarrow> \<not> is_AbortError e"
  unfolding safeParseAsync_def no_external_abort_def
  by (auto split: sum.splits if_splits
        dest: handleResult_not_abort avatar_refinement_not_abort)

lemma safeParseAsync_Failure:
  "safeParseAsync w fp d = Inr (Failure es) \<Longrightarrow> es \<noteq> []"
  unfolding safeParseAsync_def
  by (auto split: sum.splits if_splits dest: handleResult_Failure)

lemma validateTeamFile_try_not_abort:
  assumes "no_external_abort w" "signal \<noteq> Some True"
    and "validateTeamFile_try w fp signal r0 = Inl e"
  shows "\<not> is_AbortError e"
proof -
  have a: "\<And>f x. readFileSync w f = Inl x \<Longrightarrow> \<not> is_AbortError x"
    and b: "\<And>c x. parse w c = Inl x \<Longrightarrow> \<not> is_AbortError x"
    using assms(1) by (auto simp: no_external_abort_def)
  show ?thesis
    using assms(2,3) a b safeParseAsync_not_abort[OF assms(1)]
    unfolding validateTeamFile_try_def
    by (auto split: sum.splits SafeParseReturn.splits if_splits
          dest!: map_throwing_Inl dest: formatValidationError_not_abort)
qed

lemma validateTeamFile_try_Inr:
  assumes "validateTeamFile_try w fp signal
             \<lparr>rfile = fp, isValid = False, errors = [], warnings = []\<rparr> = Inr r"
  shows "rfile r = fp \<and> warnings r = []
           \<and> (if isValid r then errors r = [] else errors r \<noteq> [])"
  using assms unfolding validateTeamFile_try_def
  by (auto split: sum.splits SafeParseReturn.splits if_splits
        dest!: safeParseAsync_Failure map_throwing_Inr_length)

lemma validateTeamFile_result:
  assumes "no_external_abort w" "signal \<noteq> Some True"
  shows "\<exists>r. validateTeamFile w fp signal = Inr r \<and> rfile r = fp \<and> warnings r = []
           \<and> (if isValid r then errors r = [] else errors r \<noteq> [])"
proof (cases "validateTeamFile_try w fp signal
                \<lparr>rfile = fp, isValid = False, errors = [], warnings = []\<rparr>")
  case (Inl e)
  with validateTeamFile_try_not_abort[OF assms Inl] show ?thesis
    by (simp add: validateTeamFile_def)
next
  case (Inr r)
  with validateTeamFile_try_Inr[OF Inr] show ?thesis
    by (simp add: validateTeamFile_def)
qed

lemma example_team_files: "team_files example_world = Inr example_files"
  by code_simp

lemma example_no_external_abort: "no_external_abort example_world"
  by (simp add: no_external_abort_def example_world_def zod_parseAsync_def is_AbortError_def
        ENOENT_def Let_def)

text \<open>
  C1, as the claim states it, fails on a cancelled pass: when the signal is set at the
  checkpoint of a file, \<open>validateTeamFile\<close> rethrows the abort error and the file gets no
  \<open>ValidationResult\<close>.
\<close>

theorem cancelled_file_rejects:
  "validateTeamFile example_world ''/repo/team/ada.yaml'' (Some True) = Inl abort_reason"
  by code_simp

lemma validateTeamFile_rethrown: "validateTeamFile w f (Some True) = Inl abort_reason"
  by (simp add: validateTeamFile_def validateTeamFile_try_def is_AbortError_def abort_reason_def)

lemma validateTeamFile_caught:
  assumes "signal \<noteq> Some True"
    and "readFileSync w f = Inl e
       \<or> (\<exists>content. readFileSync w f = Inr content
            \<and> (parse w content = Inl e
               \<or> (\<exists>data. parse w content = Inr data \<and> safeParseAsync w f data = Inl e)))"
  shows "validateTeamFile w f signal =
     (if is_AbortError e then Inl e
      else Inr \<lparr>rfile = f, isValid = False,
                errors = [''Failed to parse file: '' @ error_text e], warnings = []\<rparr>)"
  using assms by (auto simp: validateTeamFile_def validateTeamFile_try_def)

lemma validateTeamFile_escalated:
  assumes "signal \<noteq> Some True"
    and "readFileSync w fp = Inr content"
    and "parse w content = Inr data"
    and "safeParseAsync w fp data = Inr (Failure es)"
    and "x \<in> set es"
    and "formatValidationError w x fp = Inl t0"
  shows "\<exists>pre e post t. es = pre @ e # post
           \<and> (\<forall>y\<in>set pre. \<exists>s. formatValidationError w y fp = Inr s)
           \<and> formatValidationError w e fp = Inl t
           \<and> validateTeamFile w fp signal =
               Inr \<lparr>rfile = fp, isValid = False,
                    errors = [''Failed to parse file: '' @ error_message t], warnings = []\<rparr>"
proof -
  from map_throwing_first[of x es "\<lambda>error. formatValidationError w error fp", OF assms(5,6)]
  obtain pre e post t where
    h: "es = pre @ e # post" "\<forall>y\<in>set pre. \<exists>s. formatValidationError w y fp = Inr s"
       "formatValidationError w e fp = Inl t"
    by blast
  have m: "map_throwing (\<lambda>error. formatValidationError w error fp) es = Inl t"
    unfolding h(1) using h(2,3) by (rule map_throwing_prefix)
  have na: "\<not> is_AbortError t" using h(3) by (rule formatValidationError_not_abort)
  have ie: "instanceof_Error t" using h(3) by (rule formatValidationError_thrown)
  have "validateTeamFile w fp signal =
               Inr \<lparr>rfile = fp, isValid = False,
                    errors = [''Failed to parse file: '' @ error_message t], warnings = []\<rparr>"
    using assms(1-4) m na ie
    by (simp add: validateTeamFile_def validateTeamFile_try_def error_text_def)
  with h show ?thesis by blast
qed

lemma formatValidationError_Inr:
  "formatValidationError w x f = Inr s \<Longrightarrow>
     s = (if path x \<noteq> [] then path_join_dot (path x) @ '': '' @ message x else message x)"
  by (auto simp: formatValidationError_def split: option.splits if_splits)

lemma map_throwing_all_Inr:
  "\<forall>x\<in>set xs. f x = Inr (g x) \<Longrightarrow> map_throwing f xs = Inr (map g xs)"
  by (induction xs) auto

lemma validateTeamFile_formatted:
  assumes "signal \<noteq> Some True"
    and "readFileSync w f = Inr content"
    and "parse w content = Inr data"
    and "safeParseAsync w f data = Inr (Failure es)"
    and "\<forall>x\<in>set es. \<exists>s. formatValidationError w x f = Inr s"
  shows "es \<noteq> []
     \<and> validateTeamFile w f signal =
         Inr \<lparr>rfile = f, isValid = False,
              errors = map (\<lambda>error. if path error \<noteq> []
                                     then path_join_dot (path error) @ '': '' @ message error
                                     else message error) es,
              warnings = []\<rparr>"
proof -
  have "\<forall>x\<in>set es. formatValidationError w x f
           = Inr (if path x \<noteq> [] then path_join_dot (path x) @ '': '' @ message x
                  else message x)"
    using assms(5) formatValidationError_Inr by blast
  then have "map_throwing (\<lambda>error. formatValidationError w error f) es
      = Inr (map (\<lambda>error. if path error \<noteq> []
                            then path_join_dot (path error) @ '': '' @ message error
                            else message error) es)"
    by (rule map_throwing_all_Inr)
  then show ?thesis
    using assms(1-4) safeParseAsync_Failure[OF assms(4)]
    by (simp add: validateTeamFile_def validateTeamFile_try_def)
qed

lemma validateTeamFile_valid_iff:
  assumes "signal \<noteq> Some True"
  shows "(\<exists>r. validateTeamFile w f signal = Inr r \<and> isValid r)
     \<longleftrightarrow> (\<exists>content data. readFileSync w f = Inr content \<and> parse w content = Inr data
            \<and> safeParseAsync w f data = Inr Success)"
  using assms
  by (auto simp: validateTeamFile_def validateTeamFile_try_def Let_def
        split: sum.splits SafeParseReturn.splits if_splits)

lemma validateTeamFile_valid_result:
  assumes "validateTeamFile w f signal = Inr r" and "isValid r"
  shows "r = \<lparr>rfile = f, isValid = True, errors = [], warnings = []\<rparr>"
  using assms
  by (auto simp: validateTeamFile_def validateTeamFile_try_def Let_def
        split: sum.splits SafeParseReturn.splits if_splits)

text \<open>
  C1, amended: \<open>validateAllTeamFiles\<close> returns one promise per enumerated file, in the order
  of the enumeration, however many files fail.  When the signal is set at the checkpoint of
  a file, or the failure raised is an error named \<open>AbortError\<close>, \<open>validateTeamFile\<close> rethrows
  it and the promise of the file rejects.  Every other failure is caught at the boundary of
  the file and ends in an invalid result that carries it: a failure thrown by reading the
  file, by the YAML parser or during the validation gives the single error
  \<open>Failed to parse file: \<close> followed by its text; an issue on which the classifier throws
  gives the single error \<open>Failed to parse file: \<close> followed by the message of the first such
  issue; a validation failure without escalation gives one formatted string for each issue,
  and at least one.  A result is valid exactly when reading, parsing and validation succeed,
  and then it has no errors.  Where nothing throws an \<open>AbortError\<close> every promise fulfils.
\<close>

theorem per_file_isolation:
  "(team_files w = Inr files \<longrightarrow>
        length (fst (validateAllTeamFiles w signal)) = length files
        \<and> (\<forall>i<length files.
              fst (validateAllTeamFiles w signal) ! i = validateTeamFile w (files ! i) signal))
     \<and> (\<forall>f. signal = Some True \<longrightarrow> validateTeamFile w f signal = Inl abort_reason)
     \<and> (\<forall>f e. signal \<noteq> Some True
            \<and> (readFileSync w f = Inl e
               \<or> (\<exists>content. readFileSync w f = Inr content
                    \<and> (parse w content = Inl e
                       \<or> (\<exists>data. parse w content = Inr data
                             \<and> safeParseAsync w f data = Inl e))))
          \<longrightarrow> validateTeamFile w f signal =
                (if is_AbortError e then Inl e
                 else Inr \<lparr>rfile = f, isValid = False,
                           errors = [''Failed to parse file: '' @ error_text e],
                           warnings = []\<rparr>))
     \<and> (\<forall>f content data es x t0. signal \<noteq> Some True
            \<and> readFileSync w f = Inr content \<and> parse w content = Inr data
            \<and> safeParseAsync w f data = Inr (Failure es)
            \<and> x \<in> set es \<and> formatValidationError w x f = Inl t0
          \<longrightarrow> (\<exists>pre e post t. es = pre @ e # post
                 \<and> (\<forall>y\<in>set pre. \<exists>s. formatValidationError w y f = Inr s)
                 \<and> formatValidationError w e f = Inl t
                 \<and> validateTeamFile w f signal =
                     Inr \<lparr>rfile = f, isValid = False,
                          errors = [''Failed to parse file: '' @ error_message t],
                          warnings = []\<rparr>))
     \<and> (\<forall>f content data es. signal \<noteq> Some True
            \<and> readFileSync w f = Inr content \<and> parse w content = Inr data
            \<and> safeParseAsync w f data = Inr (Failure es)
            \<and> (\<forall>x\<in>set es. \<exists>s. formatValidationError w x f = Inr s)
          \<longrightarrow> es \<noteq> []
              \<and> validateTeamFile w f signal =
                  Inr \<lparr>rfile = f, isValid = False,
                       errors = map (\<lambda>error. if path error \<noteq> []
                                     then path_join_dot (path error) @ '': '' @ message error
                                     else message error) es,
                       warnings = []\<rparr>)
     \<and> (\<forall>f. signal \<noteq> Some True \<longrightarrow>
            ((\<exists>r. validateTeamFile w f signal = Inr r \<and> isValid r)
               \<longleftrightarrow> (\<exists>content data. readFileSync w f = Inr content
                      \<and> parse w content = Inr data
                      \<and> safeParseAsync w f data = Inr Success)))
     \<and> (\<forall>f r. validateTeamFile w f signal = Inr r \<and> isValid r
          \<longrightarrow> r = \<lparr>rfile = f, isValid = True, errors = [], warnings = []\<rparr>)
     \<and> (no_external_abort w \<and> signal \<noteq> Some True \<longrightarrow>
          (\<forall>f. \<exists>r. validateTeamFile w f signal = Inr r \<and> rfile r = f \<and> warnings r = []
                 \<and> (if isValid r then errors r = [] else errors r \<noteq> [])))"
proof -
  have 1: "team_files w = Inr files \<longrightarrow>
        length (fst (validateAllTeamFiles w signal)) = length files
        \<and> (\<forall>i<length files.
              fst (validateAllTeamFiles w signal) ! i = validateTeamFile w (files ! i) signal)"
    by (simp add: validateAllTeamFiles_def)
  have 3: "\<forall>f. signal = Some True \<longrightarrow> validateTeamFile w f signal = Inl abort_reason"
    by (simp add: validateTeamFile_rethrown)
  have 4: "\<forall>f e. signal \<noteq> Some True
            \<and> (readFileSync w f = Inl e
               \<or> (\<exists>content. readFileSync w f = Inr content
                    \<and> (parse w content = Inl e
                       \<or> (\<exists>data. parse w content = Inr data
                             \<and> safeParseAsync w f data = Inl e))))
          \<longrightarrow> validateTeamFile w f signal =
                (if is_AbortError e then Inl e
                 else Inr \<lparr>rfile = f, isValid = False,
                           errors = [''Failed to parse file: '' @ error_text e],
                           warnings = []\<rparr>)"
    using validateTeamFile_caught[of signal w] by blast
  have 5: "\<forall>f content data es x t0. signal \<noteq> Some True
            \<and> readFileSync w f = Inr content \<and> parse w content = Inr data
            \<and> safeParseAsync w f data = Inr (Failure es)
            \<and> x \<in> set es \<and> formatValidationError w x f = Inl t0
          \<longrightarrow> (\<exists>pre e post t. es = pre @ e # post
                 \<and> (\<forall>y\<in>set pre. \<exists>s. formatValidationError w y f = Inr s)
                 \<and> formatValidationError w e f = Inl t
                 \<and> validateTeamFile w f signal =
                     Inr \<lparr>rfile = f, isValid = False,
                          errors = [''Failed to parse file: '' @ error_message t],
                          warnings = []\<rparr>)"
    using validateTeamFile_escalated[of signal w] by blast
  have 6: "\<forall>f content data es. signal \<noteq> Some True
            \<and> readFileSync w f = Inr content \<and> parse w content = Inr data
            \<and> safeParseAsync w f data = Inr (Failure es)
            \<and> (\<forall>x\<in>set es. \<exists>s. formatValidationError w x f = Inr s)
          \<longrightarrow> es \<noteq> []
              \<and> validateTeamFile w f signal =
                  Inr \<lparr>rfile = f, isValid = False,
                       errors = map (\<lambda>error. if path error \<noteq> []
                                     then path_join_dot (path error) @ '': '' @ message error
                                     else message error) es,
                       warnings = []\<rparr>"
    using validateTeamFile_formatted[of signal w] by blast
  have 7: "\<forall>f. signal \<noteq> Some True \<longrightarrow>
            ((\<exists>r. validateTeamFile w f signal = Inr r \<and> isValid r)
               \<longleftrightarrow> (\<exists>content data. readFileSync w f = Inr content
                      \<and> parse w content = Inr data
                      \<and> safeParseAsync w f data = Inr Success))"
    using validateTeamFile_valid_iff[of signal w] by blast
  have 8: "\<forall>f r. validateTeamFile w f signal = Inr r \<and> isValid r
          \<longrightarrow> r = \<lparr>rfile = f, isValid = True, errors = [], warnings = []\<rparr>"
    using validateTeamFile_valid_result[of w _ signal] by blast
  have 9: "no_external_abort w \<and> signal \<noteq> Some True \<longrightarrow>
          (\<forall>f. \<exists>r. validateTeamFile w f signal = Inr r \<and> rfile r = f \<and> warnings r = []
                 \<and> (if isValid r then errors r = [] else errors r \<noteq> []))"
    using validateTeamFile_result[of w signal] by blast
  show ?thesis
    using 1 3 4 5 6 7 8 9 by (intro conjI)
qed

theorem per_file_isolation_witness:
  \<open>team_files example_world = Inr example_files
   \<and> no_external_abort example_world
   \<and> length (fst (validateAllTeamFiles example_world (Some False))) = length example_files
   \<and> fst (validateAllTeamFiles example_world (Some False)) ! 4
         = validateTeamFile example_world (example_files ! 4) (Some False)
   \<and> validateTeamFile example_world ''/repo/team/ada.yaml'' (Some True) = Inl abort_reason
   \<and> readFileSync example_world ''/repo/team/zed.yaml'' = Inl ENOENT
   \<and> validateTeamFile example_world ''/repo/team/zed.yaml'' (Some False)
       = Inr \<lparr>rfile = ''/repo/team/zed.yaml'', isValid = False,
              errors = [''Failed to parse file: ENOENT: no such file or directory''],
              warnings = []\<rparr>
   \<and> readFileSync example_world ''/repo/team/eve.yaml'' = Inr ''{name: Eve''
   \<and> parse example_world ''{name: Eve''
       = Inl (JsError ''YAMLParseError'' ''Flow map must end with a }'')
   \<and> validateTeamFile example_world ''/repo/team/eve.yaml'' (Some False)
       = Inr \<lparr>rfile = ''/repo/team/eve.yaml'', isValid = False,
              errors = [''Failed to parse file: Flow map must end with a }''], warnings = []\<rparr>
   \<and> safeParseAsync example_world ''/repo/team/bob.yml'' bob_record
       = Inr (Failure [bob_unknown_project, bob_bad_role])
   \<and> (\<exists>pre e post t. [bob_unknown_project, bob_bad_role] = pre @ e # post
        \<and> (\<forall>y\<in>set pre. \<exists>s. formatValidationError example_world y ''/repo/team/bob.yml'' = Inr s)
        \<and> formatValidationError example_world e ''/repo/team/bob.yml'' = Inl t
        \<and> validateTeamFile example_world ''/repo/team/bob.yml'' (Some False)
            = Inr \<lparr>rfile = ''/repo/team/bob.yml'', isValid = False,
                   errors = [''Failed to parse file: '' @ error_message t], warnings = []\<rparr>)
   \<and> validateTeamFile example_world ''/repo/team/bob.yml'' (Some False)
       = Inr \<lparr>rfile = ''/repo/team/bob.yml'', isValid = False,
              errors = [''Failed to parse file: Invalid project "Podcast" for file ./team/bob.yml.''],
              warnings = []\<rparr>
   \<and> safeParseAsync example_world ''/repo/team/dee.yaml'' dee_record
       = Inr (Failure [Issue [Key ''avatar''] ''No avatar file found at ./team/dee.png'' custom])
   \<and> validateTeamFile example_world ''/repo/team/dee.yaml'' (Some False)
       = Inr \<lparr>rfile = ''/repo/team/dee.yaml'', isValid = False,
              errors = [''avatar: No avatar file found at ./team/dee.png''], warnings = []\<rparr>
   \<and> (\<exists>content data. readFileSync example_world ''/repo/team/ada.yaml'' = Inr content
          \<and> parse example_world content = Inr data
          \<and> safeParseAsync example_world ''/repo/team/ada.yaml'' data = Inr Success)
   \<and> validateTeamFile example_world ''/repo/team/ada.yaml'' (Some False)
       = Inr \<lparr>rfile = ''/repo/team/ada.yaml'', isValid = True, errors = [], warnings = []\<rparr>
   \<and> (\<forall>f. \<exists>r. validateTeamFile example_world f (Some False) = Inr r \<and> rfile r = f
             \<and> warnings r = [] \<and> (if isValid r then errors r = [] else errors r \<noteq> []))\<close>
proof -
  note T = per_file_isolation[of example_world example_files "Some False"]
  note A = per_file_isolation[of example_world example_files "Some True"]
  have s: "Some False \<noteq> Some True" by simp
  have l: "(4::nat) < length example_files" by (simp add: example_files_def)
  note L = T[THEN conjunct1, rule_format, OF example_team_files]
  have c1: "length (fst (validateAllTeamFiles example_world (Some False)))
      = length example_files"
    using L by (rule conjunct1)
  have c2: "fst (validateAllTeamFiles example_world (Some False)) ! 4
         = validateTeamFile example_world (example_files ! 4) (Some False)"
    using L[THEN conjunct2] l by blast
  have c3: "validateTeamFile example_world ''/repo/team/ada.yaml'' (Some True)
      = Inl abort_reason"
    using A[THEN conjunct2, THEN conjunct1] by blast
  note C = T[THEN conjunct2, THEN conjunct2]
  have zr: "readFileSync example_world ''/repo/team/zed.yaml'' = Inl ENOENT"
    by (simp add: example_world_def)
  have zn: "\<not> is_AbortError ENOENT" by (simp add: is_AbortError_def ENOENT_def)
  have zt: "error_text ENOENT = ''ENOENT: no such file or directory''"
    by (simp add: error_text_def ENOENT_def)
  have c4: "validateTeamFile example_world ''/repo/team/zed.yaml'' (Some False)
       = Inr \<lparr>rfile = ''/repo/team/zed.yaml'', isValid = False,
              errors = [''Failed to parse file: ENOENT: no such file or directory''],
              warnings = []\<rparr>"
    using C[THEN conjunct1, rule_format, of "''/repo/team/zed.yaml''" ENOENT] s zr zn zt
    by simp
  have er: "readFileSync example_world ''/repo/team/eve.yaml'' = Inr ''{name: Eve''"
    by (simp add: example_world_def)
  have ep: "parse example_world ''{name: Eve''
       = Inl (JsError ''YAMLParseError'' ''Flow map must end with a }'')"
    by (simp add: example_world_def)
  have c5: "validateTeamFile example_world ''/repo/team/eve.yaml'' (Some False)
       = Inr \<lparr>rfile = ''/repo/team/eve.yaml'', isValid = False,
              errors = [''Failed to parse file: Flow map must end with a }''], warnings = []\<rparr>"
    using C[THEN conjunct1, rule_format, of "''/repo/team/eve.yaml''"
              "JsError ''YAMLParseError'' ''Flow map must end with a }''"] s er ep
    by (simp add: is_AbortError_def error_text_def)
  have br: "readFileSync example_world ''/repo/team/bob.yml'' = Inr bob_text"
    by (simp add: example_world_def bob_text_def)
  have bp: "parse example_world bob_text = Inr bob_record"
    by (simp add: example_world_def bob_text_def bob_record_def bob_fields_def bob_roles_def)
  have bs: "safeParseAsync example_world ''/repo/team/bob.yml'' bob_record
       = Inr (Failure [bob_unknown_project, bob_bad_role])"
    by code_simp
  have bm: "bob_bad_role \<in> set [bob_unknown_project, bob_bad_role]" by simp
  have bf: \<open>formatValidationError example_world bob_bad_role ''/repo/team/bob.yml''
       = Inl (InvalidRoleError ''Invalid role in project "Website" for file ./team/bob.yml.'')\<close>
    by code_simp
  have c6: "\<exists>pre e post t. [bob_unknown_project, bob_bad_role] = pre @ e # post
        \<and> (\<forall>y\<in>set pre. \<exists>s. formatValidationError example_world y ''/repo/team/bob.yml'' = Inr s)
        \<and> formatValidationError example_world e ''/repo/team/bob.yml'' = Inl t
        \<and> validateTeamFile example_world ''/repo/team/bob.yml'' (Some False)
            = Inr \<lparr>rfile = ''/repo/team/bob.yml'', isValid = False,
                   errors = [''Failed to parse file: '' @ error_message t], warnings = []\<rparr>"
    using C[THEN conjunct2, THEN conjunct1, rule_format,
            of "''/repo/team/bob.yml''" bob_text bob_record
               "[bob_unknown_project, bob_bad_role]" bob_bad_role] s br bp bs bm bf
    by blast
  have c6': \<open>validateTeamFile example_world ''/repo/team/bob.yml'' (Some False)
       = Inr \<lparr>rfile = ''/repo/team/bob.yml'', isValid = False,
              errors = [''Failed to parse file: Invalid project "Podcast" for file ./team/bob.yml.''],
              warnings = []\<rparr>\<close>
    by code_simp
  have dr: "readFileSync example_world ''/repo/team/dee.yaml'' = Inr dee_text"
    by (simp add: example_world_def dee_text_def)
  have dp: "parse example_world dee_text = Inr dee_record"
    by (simp add: example_world_def dee_text_def dee_record_def)
  have ds: "safeParseAsync example_world ''/repo/team/dee.yaml'' dee_record
       = Inr (Failure [Issue [Key ''avatar''] ''No avatar file found at ./team/dee.png'' custom])"
    by code_simp
  have df: "\<forall>x\<in>set [Issue [Key ''avatar''] ''No avatar file found at ./team/dee.png'' custom].
      \<exists>s. formatValidationError example_world x ''/repo/team/dee.yaml'' = Inr s"
    by (simp add: formatValidationError_def)
  have c7: "validateTeamFile example_world ''/repo/team/dee.yaml'' (Some False)
       = Inr \<lparr>rfile = ''/repo/team/dee.yaml'', isValid = False,
              errors = [''avatar: No avatar file found at ./team/dee.png''], warnings = []\<rparr>"
    using C[THEN conjunct2, THEN conjunct2, THEN conjunct1, rule_format,
            of "''/repo/team/dee.yaml''" dee_text dee_record
               "[Issue [Key ''avatar''] ''No avatar file found at ./team/dee.png'' custom]"]
          s dr dp ds df
    by (simp add: path_join_dot_def)
  have ar: "readFileSync example_world ''/repo/team/ada.yaml''
      = Inr ''{name: Ada, avatar: ada.png, roles: {Website: [Developer]}}''"
    by (simp add: example_world_def)
  have ap: "parse example_world ''{name: Ada, avatar: ada.png, roles: {Website: [Developer]}}''
      = Inr (JObject [(''name'', JString ''Ada''), (''avatar'', JString ''ada.png''),
                  (''roles'', JObject [(''Website'', JArray [JString ''Developer''])])])"
    by (simp add: example_world_def)
  have as: "safeParseAsync example_world ''/repo/team/ada.yaml''
       (JObject [(''name'', JString ''Ada''), (''avatar'', JString ''ada.png''),
                  (''roles'', JObject [(''Website'', JArray [JString ''Developer''])])])
      = Inr Success"
    by code_simp
  have c8: "\<exists>content data. readFileSync example_world ''/repo/team/ada.yaml'' = Inr content
          \<and> parse example_world content = Inr data
          \<and> safeParseAsync example_world ''/repo/team/ada.yaml'' data = Inr Success"
    using ar ap as by blast
  note D = C[THEN conjunct2, THEN conjunct2, THEN conjunct2]
  from D[THEN conjunct1, rule_format, of "''/repo/team/ada.yaml''"] s c8
  obtain r where r: "validateTeamFile example_world ''/repo/team/ada.yaml'' (Some False) = Inr r"
    "isValid r"
    by blast
  have c9: "validateTeamFile example_world ''/repo/team/ada.yaml'' (Some False)
       = Inr \<lparr>rfile = ''/repo/team/ada.yaml'', isValid = True, errors = [], warnings = []\<rparr>"
    using D[THEN conjunct2, THEN conjunct1, rule_format, of "''/repo/team/ada.yaml''" r] r
    by simp
  have c10: "\<forall>f. \<exists>r. validateTeamFile example_world f (Some False) = Inr r \<and> rfile r = f
             \<and> warnings r = [] \<and> (if isValid r then errors r = [] else errors r \<noteq> [])"
    using D[THEN conjunct2, THEN conjunct2] example_no_external_abort s by blast
  show ?thesis
    using example_team_files example_no_external_abort c1 c2 c3 zr c4 er ep c5 bs c6 c6' ds c7
      c8 c9 c10
    by (intro conjI)
qed

lemma is_AbortError_abort_reason: "is_AbortError abort_reason"
  by (simp add: is_AbortError_def abort_reason_def)

lemma Promise_all_aborted:
  "Promise_all (map (\<lambda>file. validateTeamFile w file (Some True)) files)
     = (if files = [] then Inr [] else Inl abort_reason)"
  by (cases files) (simp_all add: validateTeamFile_rethrown)

text \<open>
  C9: when the signal of a pass is set at the time the checkpoints run, \<open>validateTeamFile\<close>
  rejects with the abort error for every file path instead of returning a result;
  \<open>runValidation\<close> catches it and returns \<open>false\<close>, and when the pass has a file to check it
  writes nothing to the console.
\<close>

theorem cancelled_pass_is_silent:
  assumes "c < length (controllers s)" and "controllers s ! c"
  shows "validateTeamFile w fp (Some (controllers s ! c)) = Inl abort_reason
     \<and> is_AbortError abort_reason
     \<and> fst (runValidation_finish w wm c s) = Inr False
     \<and> (\<forall>files. team_files w = Inr files \<and> files \<noteq> []
           \<longrightarrow> console (snd (runValidation_finish w wm c s)) = console s)"
proof -
  have 1: "validateTeamFile w fp (Some (controllers s ! c)) = Inl abort_reason"
    using assms(2) by (simp add: validateTeamFile_rethrown)
  have 3: "fst (runValidation_finish w wm c s) = Inr False"
    using assms(2)
    by (cases "team_files w")
       (simp_all add: runValidation_finish_def pass_results_def validateAllTeamFiles_def
          Promise_all_aborted is_AbortError_abort_reason Let_def)
  have 4: "\<forall>files. team_files w = Inr files \<and> files \<noteq> []
           \<longrightarrow> console (snd (runValidation_finish w wm c s)) = console s"
    using assms(2)
    by (auto simp: runValidation_finish_def pass_results_def validateAllTeamFiles_def
          Promise_all_aborted is_AbortError_abort_reason Let_def)
  from 1 is_AbortError_abort_reason 3 4 show ?thesis by blast
qed

theorem cancelled_pass_is_silent_witness:
  "0 < length (controllers two_passes_started) \<and> controllers two_passes_started ! 0
   \<and> team_files example_world = Inr example_files \<and> example_files \<noteq> []
   \<and> validateTeamFile example_world ''/repo/team/ada.yaml''
        (Some (controllers two_passes_started ! 0)) = Inl abort_reason
   \<and> runValidation_finish example_world True 0 two_passes_started
        = (Inr False, two_passes_started)
   \<and> console (snd (runValidation_finish example_world True 0 two_passes_started))
        = console two_passes_started"
proof -
  have a: "0 < length (controllers two_passes_started)"
    by (simp add: two_passes_started_def runValidation_start_def initial_process_def Let_def)
  have b: "controllers two_passes_started ! 0"
    by (simp add: two_passes_started_def runValidation_start_def initial_process_def Let_def)
  have n: "example_files \<noteq> []" by (simp add: example_files_def)
  have st: "currentValidationController two_passes_started = Some 1"
    by (simp add: two_passes_started_def runValidation_start_def initial_process_def Let_def)
  have r: "runValidation_finish example_world True 0 two_passes_started
        = (Inr False, two_passes_started)"
    using b n st
    by (simp add: runValidation_finish_def pass_results_def validateAllTeamFiles_def
          example_team_files Promise_all_aborted is_AbortError_abort_reason Let_def)
  show ?thesis
    using cancelled_pass_is_silent[OF a b, of example_world "''/repo/team/ada.yaml''" True]
      a b n r example_team_files
    by simp
qed

section \<open>The avatar check\<close>

text \<open>
  C7: for a record that passes the schema (more generally, whose parse did not abort) and
  whose avatar, resolved against the directory of the record file, is not an existing file,
  the issues of the record are those of the schema followed by exactly one more, at path
  \<open>avatar\<close>, whose message names the resolved path relative to the working directory.  For
  a record that is valid for the schema this one issue is the only error of the file.
\<close>

theorem missing_avatar_one_error:
  assumes "signal \<noteq> Some True"
    and "readFileSync w fp = Inr content"
    and "parse w content = Inr data"
    and "TeamContributor_parseAsync w data = Inr inner"
    and "status inner \<noteq> aborted"
    and "get_avatar (parsed inner) = Inr (JString a)"
    and "\<not> access w (path_resolve w (path_dirname w fp) a)"
  shows "safeParseAsync w fp data =
           Inr (Failure (issues inner @
             [Issue [Key ''avatar'']
                (''No avatar file found at ./''
                   @ path_relative w (cwd w) (path_resolve w (path_dirname w fp) a))
                custom]))
     \<and> (status inner = valid \<and> issues inner = [] \<longrightarrow>
          validateTeamFile w fp signal =
            Inr \<lparr>rfile = fp, isValid = False,
                 errors = [''avatar: No avatar file found at ./''
                   @ path_relative w (cwd w) (path_resolve w (path_dirname w fp) a)],
                 warnings = []\<rparr>)"
proof -
  have 1: "safeParseAsync w fp data =
           Inr (Failure (issues inner @
             [Issue [Key ''avatar'']
                (''No avatar file found at ./''
                   @ path_relative w (cwd w) (path_resolve w (path_dirname w fp) a))
                custom]))"
    using assms(4-7)
    by (simp add: safeParseAsync_def avatar_refinement_def handleResult_def Let_def)
  have 2: "status inner = valid \<and> issues inner = [] \<longrightarrow>
          validateTeamFile w fp signal =
            Inr \<lparr>rfile = fp, isValid = False,
                 errors = [''avatar: No avatar file found at ./''
                   @ path_relative w (cwd w) (path_resolve w (path_dirname w fp) a)],
                 warnings = []\<rparr>"
    using assms(1-3) 1
    by (simp add: validateTeamFile_def validateTeamFile_try_def formatValidationError_def
          path_join_dot_def)
  from 1 2 show ?thesis by blast
qed

theorem missing_avatar_one_error_witness:
  "Some False \<noteq> Some True
   \<and> readFileSync example_world ''/repo/team/dee.yaml'' = Inr dee_text
   \<and> parse example_world dee_text = Inr dee_record
   \<and> TeamContributor_parseAsync example_world dee_record = Inr dee_parsed
   \<and> status dee_parsed \<noteq> aborted \<and> status dee_parsed = valid \<and> issues dee_parsed = []
   \<and> get_avatar (parsed dee_parsed) = Inr (JString ''dee.png'')
   \<and> \<not> access example_world ''/repo/team/dee.png''
   \<and> safeParseAsync example_world ''/repo/team/dee.yaml'' dee_record =
        Inr (Failure [Issue [Key ''avatar''] ''No avatar file found at ./team/dee.png'' custom])
   \<and> validateTeamFile example_world ''/repo/team/dee.yaml'' (Some False) =
        Inr \<lparr>rfile = ''/repo/team/dee.yaml'', isValid = False,
             errors = [''avatar: No avatar file found at ./team/dee.png''], warnings = []\<rparr>"
proof -
  have h0: "Some False \<noteq> Some True" by simp
  have h1: "readFileSync example_world ''/repo/team/dee.yaml'' = Inr dee_text"
    by (simp add: example_world_def dee_text_def)
  have h2: "parse example_world dee_text = Inr dee_record"
    by (simp add: example_world_def dee_text_def dee_record_def)
  have h3: "TeamContributor_parseAsync example_world dee_record = Inr dee_parsed"
    by code_simp
  have h4: "status dee_parsed \<noteq> aborted" by (simp add: dee_parsed_def)
  have h5: "get_avatar (parsed dee_parsed) = Inr (JString ''dee.png'')"
    by (simp add: dee_parsed_def)
  have p: "path_resolve example_world (path_dirname example_world ''/repo/team/dee.yaml'')
             ''dee.png'' = ''/repo/team/dee.png''"
    by (simp add: example_world_def)
  have h6: "\<not> access example_world
      (path_resolve example_world (path_dirname example_world ''/repo/team/dee.yaml'') ''dee.png'')"
    unfolding p by (simp add: example_world_def)
  have r: "path_relative example_world (cwd example_world) ''/repo/team/dee.png'' = ''team/dee.png''"
    by (simp add: example_world_def)
  have v: "status dee_parsed = valid \<and> issues dee_parsed = []" by (simp add: dee_parsed_def)
  show ?thesis
    using missing_avatar_one_error[OF h0 h1 h2 h3 h4 h5 h6] h1 h2 h3 h4 h5 h6 v
    unfolding p r by simp
qed

lemma show_nat_0: "show_nat 0 = ''0''"
  by (simp add: show_nat.simps digit_char_def)

lemma runValidation_start_fresh:
  "runValidation_start s = (c, s1) \<Longrightarrow> controllers s1 ! c = False"
  by (auto simp: runValidation_start_def Let_def nth_append split: option.splits)

lemma runValidation_start_console:
  "runValidation_start s = (c, s1) \<Longrightarrow>
     console s1 = console s @ [console_clear, console_log ''Running validation...'']"
  by (auto simp: runValidation_start_def Let_def split: option.splits)

lemma runValidation_start_current:
  "runValidation_start s = (c, s1) \<Longrightarrow> currentValidationController s1 = Some c"
  by (auto simp: runValidation_start_def Let_def split: option.splits)

section \<open>The runner\<close>

text \<open>
  C8: when listing the record directory fails, the pass has no results, logs the failure,
  prints the report of an empty pass with the line \<open>0/0 files valid\<close> and returns
  \<open>false\<close>, so that the single-pass mode exits with status 0.
\<close>

theorem directory_failure_recovered:
  assumes "readdirSync w (TEAM_DIR w) = Inl e"
  shows "fst (validateAllTeamFiles w signal) = []
     \<and> fst (runValidation w False s) = Inr False
     \<and> console (snd (runValidation w False s)) =
         console s @
           [console_clear, console_log ''Running validation...'',
            console_error (''Error reading team directory: '' @ error_text e),
            console_clear, console_log (PARTY_POPPER @ '' Great news:''),
            console_log ''0/0 files valid'']
     \<and> (\<not> isWatchMode argv \<longrightarrow> fst (main w argv s) = Exit 0)"
proof -
  obtain c s1 where st: "runValidation_start s = (c, s1)" by (cases "runValidation_start s")
  have tf: "team_files w = Inl e" using assms by (simp add: team_files_def)
  have 1: "fst (validateAllTeamFiles w signal) = []"
    using tf by (simp add: validateAllTeamFiles_def)
  have 2: "fst (runValidation w False s) = Inr False"
    using st tf
    by (simp add: runValidation_def runValidation_finish_def pass_results_def
          validateAllTeamFiles_def Let_def)
  have 3: "console (snd (runValidation w False s)) =
         console s @
           [console_clear, console_log ''Running validation...'',
            console_error (''Error reading team directory: '' @ error_text e),
            console_clear, console_log (PARTY_POPPER @ '' Great news:''),
            console_log ''0/0 files valid'']"
    using st tf runValidation_start_console[OF st]
    by (simp add: runValidation_def runValidation_finish_def pass_results_def
          validateAllTeamFiles_def Let_def printResults_def printResults_for_def show_nat_0)
  have 4: "\<not> isWatchMode argv \<longrightarrow> fst (main w argv s) = Exit 0"
    using 2 by (cases "runValidation w False s") (auto simp: main_def)
  from 1 2 3 4 show ?thesis by blast
qed

theorem directory_failure_recovered_witness:
  "readdirSync empty_world (TEAM_DIR empty_world) = Inl ENOENT
   \<and> \<not> isWatchMode [''node'', ''validate.ts'']
   \<and> fst (validateAllTeamFiles empty_world (Some False)) = []
   \<and> fst (runValidation empty_world False initial_process) = Inr False
   \<and> console (snd (runValidation empty_world False initial_process)) =
         [console_clear, console_log ''Running validation...'',
          console_error ''Error reading team directory: ENOENT: no such file or directory'',
          console_clear, console_log (PARTY_POPPER @ '' Great news:''),
          console_log ''0/0 files valid'']
   \<and> fst (main empty_world [''node'', ''validate.ts''] initial_process) = Exit 0"
proof -
  have h: "readdirSync empty_world (TEAM_DIR empty_world) = Inl ENOENT"
    by (simp add: empty_world_def)
  have a: "\<not> isWatchMode [''node'', ''validate.ts'']" by (simp add: isWatchMode_def)
  have t: "error_text ENOENT = ''ENOENT: no such file or directory''"
    by (simp add: error_text_def ENOENT_def)
  have c: "console initial_process = []" by (simp add: initial_process_def)
  show ?thesis
    using directory_failure_recovered[OF h, of "Some False" initial_process
        "[''node'', ''validate.ts'']"] h a
    unfolding t c by simp
qed

lemma Promise_all_map_Inr: "Promise_all (map Inr rs) = Inr rs"
  by (induction rs) auto

lemma all_fulfilled:
  assumes "no_external_abort w" "signal \<noteq> Some True"
  shows "\<exists>results. fst (validateAllTeamFiles w signal) = map Inr results"
proof (cases "team_files w")
  case (Inl e)
  then have "fst (validateAllTeamFiles w signal) = map Inr []"
    by (simp add: validateAllTeamFiles_def)
  then show ?thesis by blast
next
  case (Inr files)
  have "\<forall>f. \<exists>r. validateTeamFile w f signal = Inr r"
    using validateTeamFile_result[OF assms] by blast
  then obtain g where g: "\<And>f. validateTeamFile w f signal = Inr (g f)" by metis
  have "fst (validateAllTeamFiles w signal) = map Inr (map g files)"
    using Inr g by (simp add: validateAllTeamFiles_def)
  then show ?thesis by blast
qed

lemma main_p000_exit:
  "\<not> isWatchMode argv \<Longrightarrow>
     fst (main_p000 w argv)
       = Exit (if (\<forall>r\<in>set (fst (validateAllTeamFiles_p000 w)). isValid r) then 0 else 1)"
  by (cases "validateAllTeamFiles_p000 w") (auto simp: main_p000_def Let_def list_ex_iff)

lemma validateAllTeamFiles_p000_length:
  "length (fst (validateAllTeamFiles_p000 w)) = length (enumerated w)"
  by (cases "team_files w") (simp_all add: validateAllTeamFiles_p000_def enumerated_def)

text \<open>
  C2: in single-pass mode every enumerated record file gets a result, and the process
  exits with status 0 exactly when all of them are valid, and with status 1 exactly when
  one of them is not.  This holds for the entry point of \<^verbatim>\<open>part_002\<close>, which exits on
  the value of \<open>runValidation\<close>, and for that of \<^verbatim>\<open>part_000\<close>, which exits on the
  results of its second call of \<open>validateAllTeamFiles\<close>.
\<close>

theorem single_pass_exit_status:
  assumes "\<not> isWatchMode argv" and "no_external_abort w"
  shows "(\<exists>results. fst (validateAllTeamFiles w (Some False)) = map Inr results
           \<and> (fst (main w argv s) = Exit 0 \<longleftrightarrow> (\<forall>r\<in>set results. isValid r))
           \<and> (fst (main w argv s) = Exit 1 \<longleftrightarrow> \<not> (\<forall>r\<in>set results. isValid r)))
     \<and> length (fst (validateAllTeamFiles_p000 w)) = length (enumerated w)
     \<and> (fst (main_p000 w argv) = Exit 0
           \<longleftrightarrow> (\<forall>r\<in>set (fst (validateAllTeamFiles_p000 w)). isValid r))
     \<and> (fst (main_p000 w argv) = Exit 1
           \<longleftrightarrow> \<not> (\<forall>r\<in>set (fst (validateAllTeamFiles_p000 w)). isValid r))"
proof -
  obtain results where r: "fst (validateAllTeamFiles w (Some False)) = map Inr results"
    using all_fulfilled[OF assms(2), of "Some False"] by auto
  obtain c s1 where st: "runValidation_start s = (c, s1)" by (cases "runValidation_start s")
  have f: "controllers s1 ! c = False" using st by (rule runValidation_start_fresh)
  have "fst (runValidation w False s) = Inr (list_ex (\<lambda>r. \<not> isValid r) results)"
    using st f r
    by (cases "validateAllTeamFiles w (Some False)")
       (simp add: runValidation_def runValidation_finish_def pass_results_def
          Promise_all_map_Inr Let_def)
  then have "fst (main w argv s) = Exit (if list_ex (\<lambda>r. \<not> isValid r) results then 1 else 0)"
    using assms(1) by (cases "runValidation w False s") (auto simp: main_def)
  then have "(fst (main w argv s) = Exit 0 \<longleftrightarrow> (\<forall>r\<in>set results. isValid r))
           \<and> (fst (main w argv s) = Exit 1 \<longleftrightarrow> \<not> (\<forall>r\<in>set results. isValid r))"
    by (auto simp: list_ex_iff)
  with r have 1: "\<exists>results. fst (validateAllTeamFiles w (Some False)) = map Inr results
           \<and> (fst (main w argv s) = Exit 0 \<longleftrightarrow> (\<forall>r\<in>set results. isValid r))
           \<and> (fst (main w argv s) = Exit 1 \<longleftrightarrow> \<not> (\<forall>r\<in>set results. isValid r))"
    by blast
  have 2: "(fst (main_p000 w argv) = Exit 0
           \<longleftrightarrow> (\<forall>r\<in>set (fst (validateAllTeamFiles_p000 w)). isValid r))
     \<and> (fst (main_p000 w argv) = Exit 1
           \<longleftrightarrow> \<not> (\<forall>r\<in>set (fst (validateAllTeamFiles_p000 w)). isValid r))"
    using main_p000_exit[OF assms(1), of w] by auto
  from 1 2 validateAllTeamFiles_p000_length show ?thesis by blast
qed

lemma same_inputsD:
  assumes "same_inputs w w'"
  shows "cwd w' = cwd w" "path_resolve w' = path_resolve w"
    "path_resolve_TypeError w' = path_resolve_TypeError w"
    "path_dirname w' = path_dirname w" "path_relative w' = path_relative w"
    "path_join w' = path_join w" "parse w' = parse w"
    "TeamContributor_parseAsync w' = TeamContributor_parseAsync w"
    "TeamContributor_safeParse w' = TeamContributor_safeParse w"
    "required_fields w' = required_fields w" "access w' = access w"
  using assms by (simp_all add: same_inputs_def)

lemma same_inputs_TEAM_DIR: "same_inputs w w' \<Longrightarrow> TEAM_DIR w' = TEAM_DIR w"
  by (simp add: TEAM_DIR_def same_inputsD)

lemma same_inputs_team_files:
  assumes "same_inputs w w'"
  shows "team_files w' = team_files w"
proof -
  have "readdirSync w' (TEAM_DIR w) = readdirSync w (TEAM_DIR w)"
    using assms by (simp add: same_inputs_def)
  then show ?thesis
    by (simp add: team_files_def same_inputs_TEAM_DIR[OF assms] same_inputsD[OF assms]
          split: sum.splits)
qed

lemma same_inputs_safeParseAsync:
  "same_inputs w w' \<Longrightarrow> safeParseAsync w' fp d = safeParseAsync w fp d"
  unfolding safeParseAsync_def avatar_refinement_def
  by (simp only: same_inputsD)

lemma same_inputs_formatValidationError:
  assumes "same_inputs w w'"
  shows "formatValidationError w' e fp = formatValidationError w e fp"
proof -
  have a: "unknown_project_check w' e fp = unknown_project_check w e fp"
    using assms
    by (induction w' e fp rule: unknown_project_check.induct)
       (simp_all add: new_InvalidProjectError_def same_inputsD)
  have b: "invalid_role_check w' e fp = invalid_role_check w e fp"
    using assms
    by (induction w' e fp rule: invalid_role_check.induct)
       (simp_all add: new_InvalidRoleError_def same_inputsD)
  show ?thesis unfolding formatValidationError_def a b by (rule refl)
qed

lemma same_inputs_validateTeamFile:
  assumes "same_inputs w w'" "f \<in> set (enumerated w)"
  shows "validateTeamFile w' f signal = validateTeamFile w f signal"
proof -
  have r: "readFileSync w' f = readFileSync w f"
    using assms by (simp add: same_inputs_def)
  have p: "parse w' = parse w" using assms(1) by (rule same_inputsD)
  have fm: "(\<lambda>error. formatValidationError w' error f) = (\<lambda>error. formatValidationError w error f)"
    using same_inputs_formatValidationError[OF assms(1)] by auto
  show ?thesis
    unfolding validateTeamFile_def validateTeamFile_try_def r p fm
      same_inputs_safeParseAsync[OF assms(1)]
    by (rule refl)
qed

lemma same_inputs_validateAllTeamFiles:
  assumes "same_inputs w w'"
  shows "validateAllTeamFiles w' signal = validateAllTeamFiles w signal"
proof (cases "team_files w")
  case (Inl e)
  then show ?thesis
    using same_inputs_team_files[OF assms] by (simp add: validateAllTeamFiles_def)
next
  case (Inr files)
  then have "\<forall>f\<in>set files. validateTeamFile w' f signal = validateTeamFile w f signal"
    using same_inputs_validateTeamFile[OF assms] by (simp add: enumerated_def)
  then show ?thesis
    using Inr same_inputs_team_files[OF assms] by (simp add: validateAllTeamFiles_def)
qed

lemma same_inputs_printResults:
  assumes "same_inputs w w'"
  shows "printResults w' rs = printResults w rs"
proof -
  have a: "print_file_errors w' = print_file_errors w"
    by (auto simp: print_file_errors_def same_inputsD[OF assms] fun_eq_iff)
  have b: "PROJECTS_FILE w' = PROJECTS_FILE w"
    by (simp add: PROJECTS_FILE_def same_inputsD[OF assms])
  show ?thesis
    unfolding printResults_def printResults_for_def a b same_inputsD[OF assms] by (rule refl)
qed

lemma same_inputs_validateAllTeamFiles_p000:
  assumes "same_inputs w w'"
  shows "validateAllTeamFiles_p000 w' = validateAllTeamFiles_p000 w"
proof -
  have t: "team_files w' = team_files w" using assms by (rule same_inputs_team_files)
  have f: "validateTeamFile_p000 w' f = validateTeamFile_p000 w f" if "f \<in> set (enumerated w)" for f
  proof -
    have r: "readFileSync w' f = readFileSync w f"
      using assms that by (simp add: same_inputs_def)
    show ?thesis
      unfolding validateTeamFile_p000_def validateTeamFile_try_p000_def r
        same_inputsD[OF assms]
      by (rule refl)
  qed
  show ?thesis
  proof (cases "team_files w")
    case (Inl e)
    then show ?thesis using t by (simp add: validateAllTeamFiles_p000_def)
  next
    case (Inr files)
    then have "\<forall>f\<in>set files. validateTeamFile_p000 w' f = validateTeamFile_p000 w f"
      using f by (simp add: enumerated_def)
    then show ?thesis using Inr t by (simp add: validateAllTeamFiles_p000_def)
  qed
qed

lemma same_inputs_main_p000:
  assumes "same_inputs w w'"
  shows "main_p000 w' argv = main_p000 w argv"
proof -
  have p: "PROJECTS_FILE_p000 w' = PROJECTS_FILE_p000 w"
    by (simp add: PROJECTS_FILE_p000_def same_inputsD[OF assms])
  have a: "print_file_errors w' = print_file_errors w"
    by (auto simp: print_file_errors_def same_inputsD[OF assms] fun_eq_iff)
  have f: "printResults_for w' = printResults_for w"
    unfolding printResults_for_def a same_inputsD[OF assms] by (rule refl)
  have r: "runValidation_p000 w' = runValidation_p000 w"
    unfolding runValidation_p000_def same_inputs_validateAllTeamFiles_p000[OF assms] f p
    by (rule refl)
  show ?thesis
    unfolding main_p000_def r same_inputs_validateAllTeamFiles_p000[OF assms] by (rule refl)
qed

text \<open>
  C10: a pass depends on the directory only through its listing, the contents of the listed
  files and the files the avatars point to.  Two passes in a row, the second in a world with
  the same inputs, yield the same results in the same order, return the same value and
  print the same report, whatever state the first pass left behind.  The same holds for the
  results, the output and the exit status of \<^verbatim>\<open>part_000\<close>.
\<close>

theorem single_pass_idempotent:
  assumes "same_inputs w w'"
    and "runValidation w wm s = (r1, s1)"
    and "runValidation w' wm s1 = (r2, s2)"
  shows "fst (validateAllTeamFiles w' (Some False)) = fst (validateAllTeamFiles w (Some False))
     \<and> r2 = r1
     \<and> (\<exists>report. console s1 = console s @ report \<and> console s2 = console s1 @ report)
     \<and> validateAllTeamFiles_p000 w' = validateAllTeamFiles_p000 w
     \<and> main_p000 w' argv = main_p000 w argv"
proof -
  obtain c t where st: "runValidation_start s = (c, t)" by (cases "runValidation_start s")
  obtain c' t' where st': "runValidation_start s1 = (c', t')" by (cases "runValidation_start s1")
  have f: "controllers t ! c = False" using st by (rule runValidation_start_fresh)
  have f': "controllers t' ! c' = False" using st' by (rule runValidation_start_fresh)
  have v: "validateAllTeamFiles w' (Some False) = validateAllTeamFiles w (Some False)"
    using assms(1) by (rule same_inputs_validateAllTeamFiles)
  have p: "printResults w' = printResults w"
    using same_inputs_printResults[OF assms(1)] by auto
  obtain ps lg where pl: "validateAllTeamFiles w (Some False) = (ps, lg)"
    by (cases "validateAllTeamFiles w (Some False)")
  define out where "out =
     (case Promise_all ps of
        Inr results \<Rightarrow> printResults w results
           @ (if wm then [console_log ''Waiting for more changes...''] else [])
      | Inl e \<Rightarrow> [])"
  define res where "res =
     (case Promise_all ps of
        Inr results \<Rightarrow> Inr (list_ex (\<lambda>r. \<not> isValid r) results)
      | Inl e \<Rightarrow> if is_AbortError e then Inr False else Inl e)"
  have a1: "fst (runValidation_finish w wm c t) = res
      \<and> console (snd (runValidation_finish w wm c t)) = console t @ lg @ out"
    using f pl
    by (simp add: runValidation_finish_def pass_results_def Let_def out_def res_def
          split: sum.splits)
  have a2: "fst (runValidation_finish w' wm c' t') = res
      \<and> console (snd (runValidation_finish w' wm c' t')) = console t' @ lg @ out"
    using f' pl v p
    by (simp add: runValidation_finish_def pass_results_def Let_def out_def res_def
          split: sum.splits)
  have r1: "r1 = res" and c1: "console s1 = console t @ lg @ out"
    using assms(2) st a1 by (auto simp: runValidation_def)
  have r2: "r2 = res" and c2: "console s2 = console t' @ lg @ out"
    using assms(3) st' a2 by (auto simp: runValidation_def)
  have "console s1 = console s @ ([console_clear, console_log ''Running validation...''] @ lg @ out)
      \<and> console s2 = console s1 @ ([console_clear, console_log ''Running validation...''] @ lg @ out)"
    using c1 c2 runValidation_start_console[OF st] runValidation_start_console[OF st'] by simp
  then have "\<exists>report. console s1 = console s @ report \<and> console s2 = console s1 @ report"
    by blast
  with v r1 r2 same_inputs_validateAllTeamFiles_p000[OF assms(1)]
    same_inputs_main_p000[OF assms(1)]
  show ?thesis by simp
qed

lemma valid_no_external_abort: "no_external_abort valid_world"
  by (simp add: no_external_abort_def valid_world_def example_world_def zod_parseAsync_def
        is_AbortError_def ENOENT_def Let_def)

theorem single_pass_exit_status_witness:
  "\<not> isWatchMode argv0 \<and> no_external_abort example_world \<and> no_external_abort valid_world
   \<and> (\<exists>results. fst (validateAllTeamFiles example_world (Some False)) = map Inr results
           \<and> (fst (main example_world argv0 initial_process) = Exit 0
                 \<longleftrightarrow> (\<forall>r\<in>set results. isValid r))
           \<and> (fst (main example_world argv0 initial_process) = Exit 1
                 \<longleftrightarrow> \<not> (\<forall>r\<in>set results. isValid r)))
   \<and> fst (main example_world argv0 initial_process) = Exit 1
   \<and> (\<exists>results. fst (validateAllTeamFiles valid_world (Some False)) = map Inr results
           \<and> (fst (main valid_world argv0 initial_process) = Exit 0
                 \<longleftrightarrow> (\<forall>r\<in>set results. isValid r))
           \<and> (fst (main valid_world argv0 initial_process) = Exit 1
                 \<longleftrightarrow> \<not> (\<forall>r\<in>set results. isValid r)))
   \<and> fst (main valid_world argv0 initial_process) = Exit 0
   \<and> length (fst (validateAllTeamFiles_p000 example_world)) = length (enumerated example_world)
   \<and> (fst (main_p000 example_world argv0) = Exit 1
         \<longleftrightarrow> \<not> (\<forall>r\<in>set (fst (validateAllTeamFiles_p000 example_world)). isValid r))
   \<and> fst (main_p000 example_world argv0) = Exit 1
   \<and> (fst (main_p000 valid_world argv0) = Exit 0
         \<longleftrightarrow> (\<forall>r\<in>set (fst (validateAllTeamFiles_p000 valid_world)). isValid r))
   \<and> fst (main_p000 valid_world argv0) = Exit 0"
proof -
  have a: "\<not> isWatchMode argv0" by (simp add: isWatchMode_def argv0_def)
  have e1: "fst (main example_world argv0 initial_process) = Exit 1" by code_simp
  have e0: "fst (main valid_world argv0 initial_process) = Exit 0" by code_simp
  have p1: "fst (main_p000 example_world argv0) = Exit 1" by code_simp
  have p0: "fst (main_p000 valid_world argv0) = Exit 0" by code_simp
  show ?thesis
    using single_pass_exit_status[OF a example_no_external_abort, of initial_process]
      single_pass_exit_status[OF a valid_no_external_abort, of initial_process]
      a example_no_external_abort valid_no_external_abort e1 e0 p1 p0
    by blast
qed

lemma example_enumerated: "enumerated example_world = example_files"
  by (simp add: enumerated_def example_team_files)

lemma touched_same_inputs: "same_inputs example_world touched_world"
  unfolding same_inputs_def example_enumerated
  by (simp add: touched_world_def example_files_def)

theorem single_pass_idempotent_witness:
  "same_inputs example_world touched_world
   \<and> fst (validateAllTeamFiles touched_world (Some False))
       = fst (validateAllTeamFiles example_world (Some False))
   \<and> fst (runValidation touched_world False
             (snd (runValidation example_world False initial_process)))
       = fst (runValidation example_world False initial_process)
   \<and> fst (runValidation example_world False initial_process) = Inr True
   \<and> (\<exists>report.
         console (snd (runValidation example_world False initial_process))
           = console initial_process @ report
       \<and> console (snd (runValidation touched_world False
                         (snd (runValidation example_world False initial_process))))
           = console (snd (runValidation example_world False initial_process)) @ report)
   \<and> validateAllTeamFiles_p000 touched_world = validateAllTeamFiles_p000 example_world
   \<and> main_p000 touched_world argv0 = main_p000 example_world argv0
   \<and> fst (main_p000 example_world argv0) = Exit 1"
proof -
  have r: "fst (runValidation example_world False initial_process) = Inr True" by code_simp
  have p1: "runValidation example_world False initial_process
      = (fst (runValidation example_world False initial_process),
         snd (runValidation example_world False initial_process))"
    by simp
  have p2: "runValidation touched_world False
         (snd (runValidation example_world False initial_process))
      = (fst (runValidation touched_world False
                (snd (runValidation example_world False initial_process))),
         snd (runValidation touched_world False
                (snd (runValidation example_world False initial_process))))"
    by simp
  have x: "fst (main_p000 example_world argv0) = Exit 1" by code_simp
  show ?thesis
    using single_pass_idempotent[OF touched_same_inputs p1 p2, of argv0] touched_same_inputs r x
    by simp
qed

section \<open>The schema and the two escalations\<close>

lemma formatValidationError_invalid_type:
  "is_invalid_type i \<Longrightarrow> \<exists>s. formatValidationError w i fp = Inr s"
  by (cases i; cases "detail i")
     (auto simp: is_invalid_type_def formatValidationError_def)

lemma handleResults_now: "now (handleResults env p rs) = []"
  by (simp add: handleResults_def OK_def INVALID_def split: option.splits)

lemma mergeArray_now: "now (mergeArray rs) = concat (map now rs)"
  by (simp add: mergeArray_def Let_def)

lemma role_array_now:
  "\<forall>i\<in>set (now (zparse env (ZodDefault (ZodArray (Role rt)) dflt) q v)). is_invalid_type i"
proof -
  have "\<forall>i\<in>set (now (zparse env (ZodArray (Role rt)) q u)). is_invalid_type i" for u
    by (cases u)
       (simp_all add: INVALID_def addIssue_def is_invalid_type_def mergeArray_now Role_def
          handleResults_now split: prod.splits)
  then show ?thesis by simp
qed

lemma fromEntries_acc_keys:
  "fst ` set (foldl (\<lambda>obj (key, v). AList.update key v obj) acc es)
     = fst ` set acc \<union> fst ` set es"
proof (induction es arbitrary: acc)
  case Nil
  then show ?case by simp
next
  case (Cons a es)
  obtain k v where a: "a = (k, v)" by (cases a)
  have "fst ` set (foldl (\<lambda>obj (key, v). AList.update key v obj) acc (a # es))
      = fst ` set (AList.update k v acc) \<union> fst ` set es"
    using Cons.IH[of "AList.update k v acc"] by (simp add: a)
  also have "\<dots> = insert k (fst ` set acc) \<union> fst ` set es"
    by (simp only: AList.dom_update) simp
  finally show ?case by (simp add: a)
qed

lemma fromEntries_keys: "set (map fst (fromEntries es)) = set (map fst es)"
  using fromEntries_acc_keys[of "[]" es] by (simp add: fromEntries_def)

lemma update_set: "(k, v) \<in> set (AList.update k' v' al) \<Longrightarrow> (k, v) = (k', v') \<or> (k, v) \<in> set al"
  by (induction al) (auto split: if_splits)

lemma fromEntries_acc_set:
  "x \<in> set (foldl (\<lambda>obj (key, v). AList.update key v obj) acc es) \<Longrightarrow> x \<in> set acc \<or> x \<in> set es"
proof (induction es arbitrary: acc)
  case Nil
  then show ?case by simp
next
  case (Cons a es)
  obtain k v where a: "a = (k, v)" by (cases a)
  obtain xk xv where x: "x = (xk, xv)" by (cases x)
  from Cons.prems have "x \<in> set (foldl (\<lambda>obj (key, v). AList.update key v obj) (AList.update k v acc) es)"
    by (simp add: a)
  from Cons.IH[OF this] show ?case
    using update_set[of xk xv k v acc] by (auto simp: a x)
qed

lemma fromEntries_set: "x \<in> set (fromEntries es) \<Longrightarrow> x \<in> set es"
  using fromEntries_acc_set[of x "[]" es] by (simp add: fromEntries_def)

lemma Roles_shape:
  "(key, t) \<in> set (fromEntries (map (\<lambda>project. (project, h project)) ps))
     \<Longrightarrow> \<exists>project. t = h project"
  by (drule fromEntries_set) auto

lemma Roles_shapeKeys:
  "set (map fst (fromEntries (map (\<lambda>project. (project, g project)) ps))) = set ps"
proof -
  have "fst ` set (fromEntries (map (\<lambda>project. (project, g project)) ps))
      = fst ` set (map (\<lambda>project. (project, g project)) ps)"
    using fromEntries_acc_keys[of "[]" "map (\<lambda>project. (project, g project)) ps"]
    by (simp add: fromEntries_def)
  also have "\<dots> = set ps" by force
  finally show ?thesis by simp
qed

lemma concat_now_invalid_type:
  assumes "\<forall>(key, t)\<in>set shape. \<exists>rt. t = ZodDefault (ZodArray (Role rt)) dflt"
  shows "\<forall>i\<in>set (concat (map (\<lambda>(key, r). now r)
            (map (\<lambda>(key, t). (key, zparse env t (p @ [Key key]) (property rs key))) shape))).
           is_invalid_type i"
  using assms role_array_now by (fastforce simp: comp_def split: prod.splits)

lemma Roles_now:
  "\<exists>pre. now (zparse env (Roles ps prs) p (JObject rs))
      = pre @ (if extraKeys ps rs \<noteq> []
               then [addIssue env p (unrecognized_keys (extraKeys ps rs))] else [])
     \<and> (\<forall>i\<in>set pre. is_invalid_type i)"
proof -
  let ?shape = "fromEntries (map (\<lambda>project. (project,
      ZodDefault (ZodArray (Role (case map_of prs project of
          Some roles \<Rightarrow> ZodEnum roles | None \<Rightarrow> ZodString))) (JArray []))) ps)"
  have sh: "\<forall>(key, t)\<in>set ?shape. \<exists>rt. t = ZodDefault (ZodArray (Role rt)) (JArray [])"
  proof (clarify)
    fix key t assume "(key, t) \<in> set ?shape"
    from Roles_shape[OF this] show "\<exists>rt. t = ZodDefault (ZodArray (Role rt)) (JArray [])"
      by blast
  qed
  have k: "set (map fst ?shape) = set ps" by (rule Roles_shapeKeys)
  have e: "filter (\<lambda>key. key \<notin> set (map fst ?shape)) (map fst rs) = extraKeys ps rs"
    unfolding k by (simp add: extraKeys_def)
  show ?thesis
    using concat_now_invalid_type[OF sh, of env p rs]
    unfolding Roles_def zparse.simps jsval.case mergeObject_def Let_def e
    by simp
qed

lemma merge_status_dirty: "merge_status True rs \<noteq> valid"
  by (simp add: merge_status_def)

lemma Roles_status:
  "extraKeys ps rs \<noteq> [] \<Longrightarrow> pstatus (zparse env (Roles ps prs) p (JObject rs)) \<noteq> valid"
proof -
  let ?shape = "fromEntries (map (\<lambda>project. (project,
      ZodDefault (ZodArray (Role (case map_of prs project of
          Some roles \<Rightarrow> ZodEnum roles | None \<Rightarrow> ZodString))) (JArray []))) ps)"
  assume x: "extraKeys ps rs \<noteq> []"
  have k: "set (map fst ?shape) = set ps" by (rule Roles_shapeKeys)
  have e: "filter (\<lambda>key. key \<notin> set (map fst ?shape)) (map fst rs) = extraKeys ps rs"
    unfolding k by (simp add: extraKeys_def)
  show ?thesis
    using x merge_status_dirty
    unfolding Roles_def zparse.simps jsval.case mergeObject_def Let_def e
    by simp
qed

lemma ZodString_now: "\<forall>i\<in>set (now (zparse env ZodString q v)). is_invalid_type i"
  by (cases v) (simp_all add: OK_def INVALID_def addIssue_def is_invalid_type_def)

lemma TeamContributor_now:
  assumes "map_of fs ''roles'' = Some (JObject rs)" and "extraKeys ps rs \<noteq> []"
  shows "\<exists>pre post. now (zparse env (TeamContributor ps prs) [] (JObject fs))
           = pre @ addIssue env [Key ''roles''] (unrecognized_keys (extraKeys ps rs)) # post
         \<and> (\<forall>i\<in>set pre. is_invalid_type i)"
proof -
  obtain rpre where r: "now (zparse env (Roles ps prs) [Key ''roles''] (JObject rs))
      = rpre @ [addIssue env [Key ''roles''] (unrecognized_keys (extraKeys ps rs))]"
      "\<forall>i\<in>set rpre. is_invalid_type i"
    using Roles_now[of env ps prs "[Key ''roles'']" rs] assms(2) by auto
  have p: "property fs ''roles'' = JObject rs" using assms(1) by (simp add: property_def)
  let ?pre = "now (zparse env ZodString [Key ''name''] (property fs ''name''))
      @ now (zparse env ZodString [Key ''avatar''] (property fs ''avatar'')) @ rpre"
  let ?post = "now (external env [Key ''contacts''] (property fs ''contacts''))"
  have "now (zparse env (TeamContributor ps prs) [] (JObject fs))
           = ?pre @ addIssue env [Key ''roles''] (unrecognized_keys (extraKeys ps rs)) # ?post"
    unfolding TeamContributor_def
    by (simp add: mergeObject_def Let_def p r(1) del: zparse.simps(1))
  moreover have "\<forall>i\<in>set ?pre. is_invalid_type i"
    using ZodString_now r(2) by auto
  ultimately show ?thesis by blast
qed

lemma TeamContributor_status:
  assumes "map_of fs ''roles'' = Some (JObject rs)" and "extraKeys ps rs \<noteq> []"
  shows "pstatus (zparse env (TeamContributor ps prs) [] (JObject fs)) \<noteq> valid"
proof -
  have p: "property fs ''roles'' = JObject rs" using assms(1) by (simp add: property_def)
  have "pstatus (zparse env (Roles ps prs) [Key ''roles''] (JObject rs)) \<noteq> valid"
    using assms(2) by (rule Roles_status)
  then show ?thesis
    unfolding TeamContributor_def
    by (cases "pstatus (zparse env (Roles ps prs) [Key ''roles''] (JObject rs))")
       (simp_all add: mergeObject_def Let_def p merge_status_def del: zparse.simps(1))
qed

lemma ZodString_not_aborted:
  "pstatus (zparse env ZodString q v) \<noteq> aborted \<Longrightarrow> \<exists>a. pvalue (zparse env ZodString q v) = JString a"
  by (cases v) (simp_all add: OK_def INVALID_def)

lemma TeamContributor_avatar:
  assumes "pstatus (zparse env (TeamContributor ps prs) [] (JObject fs)) \<noteq> aborted"
  shows "\<exists>a. get_avatar (pvalue (zparse env (TeamContributor ps prs) [] (JObject fs)))
              = Inr (JString a)"
proof -
  let ?n = "zparse env ZodString [Key ''name''] (property fs ''name'')"
  let ?a = "zparse env ZodString [Key ''avatar''] (property fs ''avatar'')"
  have na: "pstatus ?a \<noteq> aborted"
    using assms unfolding TeamContributor_def
    by (auto simp: mergeObject_def Let_def merge_status_def simp del: zparse.simps(1)
          split: if_splits)
  then obtain a where a: "pvalue ?a = JString a"
    using ZodString_not_aborted by blast
  show ?thesis
    using assms a unfolding TeamContributor_def
    by (auto simp: mergeObject_def Let_def simp del: zparse.simps(1) split: if_splits)
qed

lemma Role_no_TypeError:
  "t = ZodString \<or> (\<exists>roles. t = ZodEnum roles) \<Longrightarrow> \<not> throws_TypeError (Role t) d"
  by (auto simp: Role_def split: jsval.splits)

lemma role_array_no_TypeError:
  "\<not> throws_TypeError
       (ZodDefault
          (ZodArray (Role (case map_of prs project of
                             Some roles \<Rightarrow> ZodEnum roles
                           | None \<Rightarrow> ZodString)))
          (JArray [])) d"
proof -
  have "\<And>x. \<not> throws_TypeError
       (Role (case map_of prs project of Some roles \<Rightarrow> ZodEnum roles | None \<Rightarrow> ZodString)) x"
    by (rule Role_no_TypeError) (simp split: option.splits)
  then show ?thesis
    by (simp add: list_ex_iff split: jsval.splits)
qed

lemma Roles_no_TypeError: "\<not> throws_TypeError (Roles ps prs) d"
proof (cases d)
  case (JObject fs)
  have "\<And>key t. (key, t) \<in> set (fromEntries (map (\<lambda>project. (project,
            ZodDefault
              (ZodArray (Role (case map_of prs project of
                                 Some roles \<Rightarrow> ZodEnum roles
                               | None \<Rightarrow> ZodString)))
              (JArray []))) ps))
          \<Longrightarrow> \<not> throws_TypeError t (property fs key)"
  proof -
    fix key t
    assume "(key, t) \<in> set (fromEntries (map (\<lambda>project. (project,
            ZodDefault
              (ZodArray (Role (case map_of prs project of
                                 Some roles \<Rightarrow> ZodEnum roles
                               | None \<Rightarrow> ZodString)))
              (JArray []))) ps))"
    then obtain project where "t = ZodDefault
              (ZodArray (Role (case map_of prs project of
                                 Some roles \<Rightarrow> ZodEnum roles
                               | None \<Rightarrow> ZodString)))
              (JArray [])"
      by (drule_tac Roles_shape) blast
    then show "\<not> throws_TypeError t (property fs key)"
      by (simp only: role_array_no_TypeError not_False_eq_True)
  qed
  then show ?thesis
    unfolding Roles_def JObject by (auto simp: list_ex_iff)
qed (simp_all add: Roles_def)

lemma TeamContributor_no_TypeError: "\<not> throws_TypeError (TeamContributor ps prs) d"
  by (cases d) (simp_all add: TeamContributor_def Roles_no_TypeError)

lemma zod_safeParseAsync:
  assumes "TeamContributor_parseAsync w = zod_parseAsync env (TeamContributor ps prs)"
    and "map_of fs ''roles'' = Some (JObject rs)" and "extraKeys ps rs \<noteq> []"
  shows "\<exists>pre post. safeParseAsync w fp (JObject fs)
            = Inr (Failure (pre @ addIssue env [Key ''roles'']
                                    (unrecognized_keys (extraKeys ps rs)) # post))
           \<and> (\<forall>i\<in>set pre. is_invalid_type i)"
proof -
  let ?r = "zparse env (TeamContributor ps prs) [] (JObject fs)"
  let ?U = "addIssue env [Key ''roles''] (unrecognized_keys (extraKeys ps rs))"
  obtain pre post where n: "now ?r = pre @ ?U # post" "\<forall>i\<in>set pre. is_invalid_type i"
    using TeamContributor_now[OF assms(2,3)] by blast
  have st: "pstatus ?r \<noteq> valid" using assms(2,3) by (rule TeamContributor_status)
  let ?l = "microtask_order env (JObject fs) (later ?r)"
  show ?thesis
  proof (cases "pstatus ?r = aborted")
    case True
    then have "safeParseAsync w fp (JObject fs) = Inr (Failure (pre @ ?U # (post @ ?l)))"
      by (simp add: safeParseAsync_def assms(1) zod_parseAsync_def TeamContributor_no_TypeError
            Let_def handleResult_def n(1))
    with n(2) show ?thesis by blast
  next
    case False
    then obtain a where a: "get_avatar (pvalue ?r) = Inr (JString a)"
      using TeamContributor_avatar by blast
    then have "\<exists>added. avatar_refinement w fp (pvalue ?r) = Inr added"
      by (simp add: avatar_refinement_def Let_def)
    then obtain added where ad: "avatar_refinement w fp (pvalue ?r) = Inr added" by blast
    have "safeParseAsync w fp (JObject fs) = Inr (Failure (pre @ ?U # (post @ ?l @ added)))"
      using False st ad
      by (simp add: safeParseAsync_def assms(1) zod_parseAsync_def TeamContributor_no_TypeError
            Let_def handleResult_def n(1))
    with n(2) show ?thesis by blast
  qed
qed

lemma extraKeys_nonempty: "k \<in> set (map fst rs) \<Longrightarrow> k \<notin> set ps \<Longrightarrow> k \<in> set (extraKeys ps rs)"
  by (simp add: extraKeys_def)

lemma hd_extraKeys:
  "extraKeys ps rs \<noteq> [] \<Longrightarrow> hd (extraKeys ps rs) \<in> set (map fst rs) \<and> hd (extraKeys ps rs) \<notin> set ps"
proof -
  assume "extraKeys ps rs \<noteq> []"
  then have "hd (extraKeys ps rs) \<in> set (extraKeys ps rs)" by simp
  then show ?thesis by (simp add: extraKeys_def)
qed

lemma unknown_project_thrown:
  "ks \<noteq> [] \<Longrightarrow>
   formatValidationError w (addIssue env [Key ''roles''] (unrecognized_keys ks)) fp
     = Inl (new_InvalidProjectError w (hd ks) fp)"
  by (cases ks) (simp_all add: formatValidationError_def addIssue_def keys0_def)

text \<open>
  C3: under the schema of \<^verbatim>\<open>part_004\<close>, a record with a key under \<open>roles\<close> that is not a
  project name gets exactly one error: the invalid-project message, which names the first
  such key of the record, after \<open>Failed to parse file: \<close>.  zod pushes the
  \<open>unrecognized_keys\<close> issue before every issue of a union, and the issues before it are
  type mismatches, so no other message, generic or escalated, can take its place.
\<close>

theorem unknown_project_reported:
  assumes "signal \<noteq> Some True"
    and "readFileSync w fp = Inr content"
    and "parse w content = Inr (JObject fs)"
    and "map_of fs ''roles'' = Some (JObject rs)"
    and "k \<in> set (map fst rs)" and "k \<notin> set ps"
    and "TeamContributor_parseAsync w = zod_parseAsync env (TeamContributor ps prs)"
  shows \<open>validateTeamFile w fp signal =
           Inr \<lparr>rfile = fp, isValid = False,
                errors = [''Failed to parse file: Invalid project "'' @ hd (extraKeys ps rs)
                            @ ''" for file ./'' @ path_relative w (cwd w) fp @ ''.''],
                warnings = []\<rparr>
         \<and> hd (extraKeys ps rs) \<in> set (map fst rs) \<and> hd (extraKeys ps rs) \<notin> set ps\<close>
proof -
  have x: "extraKeys ps rs \<noteq> []" using extraKeys_nonempty[OF assms(5,6)] by auto
  let ?U = "addIssue env [Key ''roles''] (unrecognized_keys (extraKeys ps rs))"
  obtain pre post where es: "safeParseAsync w fp (JObject fs) = Inr (Failure (pre @ ?U # post))"
      and pre: "\<forall>i\<in>set pre. is_invalid_type i"
    using zod_safeParseAsync[OF assms(7,4) x] by blast
  have p: "\<forall>y\<in>set pre. \<exists>s. formatValidationError w y fp = Inr s"
    using pre formatValidationError_invalid_type by blast
  have t: "formatValidationError w ?U fp = Inl (new_InvalidProjectError w (hd (extraKeys ps rs)) fp)"
    using x by (rule unknown_project_thrown)
  have m: "map_throwing (\<lambda>error. formatValidationError w error fp) (pre @ ?U # post)
      = Inl (new_InvalidProjectError w (hd (extraKeys ps rs)) fp)"
    using p t by (rule map_throwing_prefix)
  have \<open>validateTeamFile w fp signal =
           Inr \<lparr>rfile = fp, isValid = False,
                errors = [''Failed to parse file: Invalid project "'' @ hd (extraKeys ps rs)
                            @ ''" for file ./'' @ path_relative w (cwd w) fp @ ''.''],
                warnings = []\<rparr>\<close>
    using assms(1-3) es m
    by (simp add: validateTeamFile_def validateTeamFile_try_def new_InvalidProjectError_def
          is_AbortError_def error_text_def)
  with hd_extraKeys[OF x] show ?thesis by blast
qed

theorem unknown_project_reported_witness:
  \<open>Some False \<noteq> Some True
   \<and> readFileSync example_world ''/repo/team/bob.yml'' = Inr bob_text
   \<and> parse example_world bob_text = Inr (JObject bob_fields)
   \<and> map_of bob_fields ''roles'' = Some (JObject bob_roles)
   \<and> ''Podcast'' \<in> set (map fst bob_roles) \<and> ''Podcast'' \<notin> set PROJECTS
   \<and> TeamContributor_parseAsync example_world
       = zod_parseAsync example_env (TeamContributor PROJECTS PROJECT_ROLES)
   \<and> hd (extraKeys PROJECTS bob_roles) = ''Podcast''
   \<and> validateTeamFile example_world ''/repo/team/bob.yml'' (Some False) =
        Inr \<lparr>rfile = ''/repo/team/bob.yml'', isValid = False,
             errors = [''Failed to parse file: Invalid project "Podcast" for file ./team/bob.yml.''],
             warnings = []\<rparr>\<close>
proof -
  have h0: "Some False \<noteq> Some True" by simp
  have h1: "readFileSync example_world ''/repo/team/bob.yml'' = Inr bob_text"
    by (simp add: example_world_def bob_text_def)
  have h2: "parse example_world bob_text = Inr (JObject bob_fields)"
    by (simp add: example_world_def bob_text_def bob_fields_def bob_roles_def)
  have h3: "map_of bob_fields ''roles'' = Some (JObject bob_roles)"
    by (simp add: bob_fields_def)
  have h4: "''Podcast'' \<in> set (map fst bob_roles)" by (simp add: bob_roles_def)
  have h5: "''Podcast'' \<notin> set PROJECTS" by (simp add: PROJECTS_def)
  have h6: "TeamContributor_parseAsync example_world
       = zod_parseAsync example_env (TeamContributor PROJECTS PROJECT_ROLES)"
    by (simp add: example_world_def)
  have k: "hd (extraKeys PROJECTS bob_roles) = ''Podcast''"
    by (simp add: extraKeys_def PROJECTS_def bob_roles_def)
  have r: "path_relative example_world (cwd example_world) ''/repo/team/bob.yml'' = ''team/bob.yml''"
    by (simp add: example_world_def)
  show ?thesis
    using unknown_project_reported[OF h0 h1 h2 h3 h4 h5 h6] h1 h2 h3 h4 h5 h6 k
    unfolding k r by simp
qed

text \<open>
  Under the schema of \<^verbatim>\<open>src/code/schema.ts\<close> a record with a role for the project of
  \<open>PROJECT_ROLES\<close> cannot be parsed at all: the union of that project holds the array of
  role names where a zod type is expected.
\<close>

lemma schema_ts_TypeError:
  "zod_parseAsync example_env (TeamContributor_schema_ts PROJECTS PROJECT_ROLES)
       (JObject cyd_fields)
     = Inl (JsError ''TypeError'' ''option._parseAsync is not a function'')"
  by code_simp

text \<open>
  C6 fails for the schema of \<^verbatim>\<open>src/code/schema.ts\<close>: without \<open>.strict()\<close> the record with
  the unknown project \<open>Podcast\<close> is valid, and the key is gone from the parsed value.
\<close>

theorem schema_ts_drops_unknown_key:
  "zparse example_env (TeamContributor_schema_ts PROJECTS PROJECT_ROLES) [] pat_record
     = OK (JObject [(''name'', JString ''Pat''), (''avatar'', JString ''ada.png''),
             (''roles'', JObject [(''Volume 0 Kickstarter'', JArray []), (''Volume 0'', JArray []),
                (''Website'', JArray [JString ''Dev'']), (''Volume 0 Issue 1'', JArray []),
                (''Fandom Cookies'', JArray [])]),
             (''contacts'', JArray [])])
   \<and> zod_parseAsync example_env (TeamContributor_schema_ts PROJECTS PROJECT_ROLES) pat_record
     = Inr \<lparr>status = valid,
            parsed = JObject [(''name'', JString ''Pat''), (''avatar'', JString ''ada.png''),
             (''roles'', JObject [(''Volume 0 Kickstarter'', JArray []), (''Volume 0'', JArray []),
                (''Website'', JArray [JString ''Dev'']), (''Volume 0 Issue 1'', JArray []),
                (''Fandom Cookies'', JArray [])]),
             (''contacts'', JArray [])],
            issues = []\<rparr>"
  by code_simp

text \<open>
  C6, amended: the schema of \<^verbatim>\<open>part_004\<close>, whose \<open>Roles\<close> object is strict, rejects every
  record with a key under \<open>roles\<close> that is not a project name.  The \<open>Roles\<close> object and the
  record are not valid, and an \<open>unrecognized_keys\<close> issue at \<open>roles\<close> naming the key is among
  the issues the script receives.
\<close>

theorem strict_roles_reject_unknown_key:
  assumes "k \<in> set (map fst rs)" and "k \<notin> set ps"
    and "map_of fs ''roles'' = Some (JObject rs)"
    and "TeamContributor_parseAsync w = zod_parseAsync env (TeamContributor ps prs)"
  shows "pstatus (zparse env (Roles ps prs) p (JObject rs)) \<noteq> valid
     \<and> addIssue env p (unrecognized_keys (extraKeys ps rs))
          \<in> set (now (zparse env (Roles ps prs) p (JObject rs)))
     \<and> k \<in> set (extraKeys ps rs)
     \<and> pstatus (zparse env (TeamContributor ps prs) [] (JObject fs)) \<noteq> valid
     \<and> (\<exists>es. safeParseAsync w fp (JObject fs) = Inr (Failure es)
              \<and> addIssue env [Key ''roles''] (unrecognized_keys (extraKeys ps rs)) \<in> set es)"
proof -
  have k: "k \<in> set (extraKeys ps rs)" using assms(1,2) by (rule extraKeys_nonempty)
  then have x: "extraKeys ps rs \<noteq> []" by auto
  have 1: "pstatus (zparse env (Roles ps prs) p (JObject rs)) \<noteq> valid"
    using x by (rule Roles_status)
  have 2: "addIssue env p (unrecognized_keys (extraKeys ps rs))
          \<in> set (now (zparse env (Roles ps prs) p (JObject rs)))"
    using Roles_now[of env ps prs p rs] x by auto
  have 4: "pstatus (zparse env (TeamContributor ps prs) [] (JObject fs)) \<noteq> valid"
    using assms(3) x by (rule TeamContributor_status)
  have 5: "\<exists>es. safeParseAsync w fp (JObject fs) = Inr (Failure es)
              \<and> addIssue env [Key ''roles''] (unrecognized_keys (extraKeys ps rs)) \<in> set es"
    using zod_safeParseAsync[OF assms(4,3) x, of fp] by auto
  from 1 2 k 4 5 show ?thesis by blast
qed

theorem strict_roles_reject_unknown_key_witness:
  "''Podcast'' \<in> set (map fst bob_roles) \<and> ''Podcast'' \<notin> set PROJECTS
   \<and> map_of bob_fields ''roles'' = Some (JObject bob_roles)
   \<and> TeamContributor_parseAsync example_world
       = zod_parseAsync example_env (TeamContributor PROJECTS PROJECT_ROLES)
   \<and> extraKeys PROJECTS bob_roles = [''Podcast'']
   \<and> pstatus (zparse example_env (Roles PROJECTS PROJECT_ROLES) [Key ''roles'']
               (JObject bob_roles)) \<noteq> valid
   \<and> addIssue example_env [Key ''roles''] (unrecognized_keys [''Podcast''])
        \<in> set (now (zparse example_env (Roles PROJECTS PROJECT_ROLES) [Key ''roles'']
                      (JObject bob_roles)))
   \<and> pstatus (zparse example_env (TeamContributor PROJECTS PROJECT_ROLES) []
               (JObject bob_fields)) \<noteq> valid
   \<and> (\<exists>es. safeParseAsync example_world ''/repo/team/bob.yml'' (JObject bob_fields)
              = Inr (Failure es)
          \<and> addIssue example_env [Key ''roles''] (unrecognized_keys [''Podcast'']) \<in> set es)"
proof -
  have h3: "map_of bob_fields ''roles'' = Some (JObject bob_roles)"
    by (simp add: bob_fields_def)
  have h4: "''Podcast'' \<in> set (map fst bob_roles)" by (simp add: bob_roles_def)
  have h5: "''Podcast'' \<notin> set PROJECTS" by (simp add: PROJECTS_def)
  have h6: "TeamContributor_parseAsync example_world
       = zod_parseAsync example_env (TeamContributor PROJECTS PROJECT_ROLES)"
    by (simp add: example_world_def)
  have k: "extraKeys PROJECTS bob_roles = [''Podcast'']"
    by (simp add: extraKeys_def PROJECTS_def bob_roles_def)
  show ?thesis
    using strict_roles_reject_unknown_key[OF h4 h5 h3 h6, of "[Key ''roles'']"
        "''/repo/team/bob.yml''"] h3 h4 h5 h6 k
    unfolding k by simp
qed








lemma leaf_status:
  "rt = ZodString \<or> rt = ZodEnum roles \<Longrightarrow> pstatus (zparse env rt q d) \<noteq> dirty"
  by (cases d) (auto simp: OK_def INVALID_def split: if_splits)

lemma role_object_status:
  assumes "rt = ZodString \<or> rt = ZodEnum roles"
  shows "pstatus (zparse env (ZodObject [(''role'', rt), (''details'', ZodString)] strip) p d)
           \<noteq> dirty"
proof (cases d)
  case (JObject fs)
  have a: "pstatus (zparse env rt (p @ [Key ''role'']) (property fs ''role'')) \<noteq> dirty"
    using assms by (rule leaf_status)
  have b: "pstatus (zparse env ZodString (p @ [Key ''details'']) (property fs ''details''))
      \<noteq> dirty"
    by (rule leaf_status) simp
  show ?thesis
    using a b unfolding JObject
    by (simp add: mergeObject_def Let_def merge_status_def del: zparse.simps(1,2))
qed (simp_all add: INVALID_def)

lemma role_entry_failure:
  assumes "rt = ZodString \<or> rt = ZodEnum roles"
    and "pstatus (zparse env (Role rt) p d) \<noteq> valid"
  shows "\<exists>us. zparse env (Role rt) p d = INVALID [] [addIssue env p (invalid_union us)]"
proof -
  let ?a = "zparse env rt p d"
  let ?b = "zparse env (ZodObject [(''role'', rt), (''details'', ZodString)] strip) p d"
  have z: "zparse env (Role rt) p d = handleResults env p [?a, ?b]"
    by (simp add: Role_def)
  have da: "pstatus ?a \<noteq> dirty" using assms(1) by (rule leaf_status)
  have db: "pstatus ?b \<noteq> dirty" using assms(1) by (rule role_object_status)
  have va: "pstatus ?a \<noteq> valid" and vb: "pstatus ?b \<noteq> valid"
    using assms(2) unfolding z by (auto simp: handleResults_def OK_def split: if_splits)
  have "handleResults env p [?a, ?b]
      = INVALID [] [addIssue env p (invalid_union (map (\<lambda>r. now r @ later r) [?a, ?b]))]"
    using da db va vb by (simp add: handleResults_def)
  then show ?thesis unfolding z by blast
qed

















end
